theory Spec2Isabelle
  imports Complex_Main
begin

section \<open>JavaScript numbers\<close>

text \<open>
  A JavaScript number is an IEEE double. The finite doubles are idealised as the reals
  (no rounding, no overflow, one zero: every zero is read as +0); the three special
  values that a division by zero produces are kept, with the arithmetic IEEE 754 gives
  them, so that a zero period or a zero duration behaves in the model as it does in
  the program. Where a claim depends on the rounding of the doubles, the operations
  in question are taken up again with rounding in the section on double arithmetic.
\<close>

datatype jsnum = Num real | PInf | NInf | NaN

text \<open>The sign of a value that is not NaN, and the infinity (or NaN) of a sign.\<close>

fun jsign :: "jsnum \<Rightarrow> real" where
  "jsign (Num a) = sgn a"
| "jsign PInf = 1"
| "jsign NInf = - 1"
| "jsign NaN = 0"

definition inf_of_sign :: "real \<Rightarrow> jsnum" where
  "inf_of_sign s = (if s = 0 then NaN else if 0 < s then PInf else NInf)"

instantiation jsnum :: "{uminus, plus, minus, times, divide}"
begin

fun uminus_jsnum :: "jsnum \<Rightarrow> jsnum" where
  "uminus_jsnum (Num a) = Num (- a)"
| "uminus_jsnum PInf = NInf"
| "uminus_jsnum NInf = PInf"
| "uminus_jsnum NaN = NaN"

fun plus_jsnum :: "jsnum \<Rightarrow> jsnum \<Rightarrow> jsnum" where
  "plus_jsnum (Num a) (Num b) = Num (a + b)"
| "plus_jsnum NaN _ = NaN"
| "plus_jsnum _ NaN = NaN"
| "plus_jsnum PInf NInf = NaN"
| "plus_jsnum NInf PInf = NaN"
| "plus_jsnum PInf _ = PInf"
| "plus_jsnum _ PInf = PInf"
| "plus_jsnum NInf _ = NInf"
| "plus_jsnum _ NInf = NInf"

definition minus_jsnum :: "jsnum \<Rightarrow> jsnum \<Rightarrow> jsnum" where
  "minus_jsnum a b = a + (- b)"

fun times_jsnum :: "jsnum \<Rightarrow> jsnum \<Rightarrow> jsnum" where
  "times_jsnum (Num a) (Num b) = Num (a * b)"
| "times_jsnum NaN _ = NaN"
| "times_jsnum _ NaN = NaN"
| "times_jsnum a b = inf_of_sign (jsign a * jsign b)"

fun divide_jsnum :: "jsnum \<Rightarrow> jsnum \<Rightarrow> jsnum" where
  "divide_jsnum (Num a) (Num b) = (if b = 0 then inf_of_sign (sgn a) else Num (a / b))"
| "divide_jsnum NaN _ = NaN"
| "divide_jsnum _ NaN = NaN"
| "divide_jsnum (Num a) _ = Num 0"
| "divide_jsnum PInf (Num b) = (if b < 0 then NInf else PInf)"
| "divide_jsnum NInf (Num b) = (if b < 0 then PInf else NInf)"
| "divide_jsnum _ _ = NaN"

instance ..

end

instantiation jsnum :: inverse
begin

definition inverse_jsnum :: "jsnum \<Rightarrow> jsnum" where
  "inverse_jsnum a = divide (Num 1) a"

instance ..

end

text \<open>\<^verbatim>\<open>a < b\<close>: false whenever an operand is NaN.\<close>

fun jlt :: "jsnum \<Rightarrow> jsnum \<Rightarrow> bool" where
  "jlt (Num a) (Num b) = (a < b)"
| "jlt NaN _ = False"
| "jlt _ NaN = False"
| "jlt PInf _ = False"
| "jlt _ NInf = False"
| "jlt _ _ = True"

text \<open>\<^verbatim>\<open>Math.min\<close>, \<^verbatim>\<open>Math.max\<close>: NaN when an argument is NaN.\<close>

definition Math_min :: "jsnum \<Rightarrow> jsnum \<Rightarrow> jsnum" where
  "Math_min a b = (if a = NaN \<or> b = NaN then NaN else if jlt a b then a else b)"

definition Math_max :: "jsnum \<Rightarrow> jsnum \<Rightarrow> jsnum" where
  "Math_max a b = (if a = NaN \<or> b = NaN then NaN else if jlt a b then b else a)"

text \<open>\<^verbatim>\<open>Math.cos\<close>, \<^verbatim>\<open>Math.sin\<close>: NaN outside the finite numbers.\<close>

fun Math_cos :: "jsnum \<Rightarrow> jsnum" where
  "Math_cos (Num a) = Num (cos a)"
| "Math_cos _ = NaN"

fun Math_sin :: "jsnum \<Rightarrow> jsnum" where
  "Math_sin (Num a) = Num (sin a)"
| "Math_sin _ = NaN"

text \<open>\<^verbatim>\<open>Math.pow(x, 3)\<close>: an odd power keeps the sign of an infinity.\<close>

fun Math_pow3 :: "jsnum \<Rightarrow> jsnum" where
  "Math_pow3 (Num a) = Num (a ^ 3)"
| "Math_pow3 v = v"

text \<open>\<^verbatim>\<open>Math.sqrt\<close>: NaN below zero.\<close>

fun Math_sqrt :: "jsnum \<Rightarrow> jsnum" where
  "Math_sqrt (Num a) = (if a < 0 then NaN else Num (sqrt a))"
| "Math_sqrt PInf = PInf"
| "Math_sqrt _ = NaN"

text \<open>\<^verbatim>\<open>x || d\<close> on a number: \<open>d\<close> when \<open>x\<close> is 0 or NaN (a missing field reads as NaN).\<close>

definition or_default :: "jsnum \<Rightarrow> jsnum \<Rightarrow> jsnum" where
  "or_default v d = (if v = Num 0 \<or> v = NaN then d else v)"

fun is_finite :: "jsnum \<Rightarrow> bool" where
  "is_finite (Num a) = True"
| "is_finite _ = False"

section \<open>Vectors (THREE.Vector3)\<close>

datatype Vector3 = Vector3 (vx: jsnum) (vy: jsnum) (vz: jsnum)

text \<open>\<^verbatim>\<open>a.clone().add(b)\<close>\<close>

definition vadd :: "Vector3 \<Rightarrow> Vector3 \<Rightarrow> Vector3" where
  "vadd a b = Vector3 (vx a + vx b) (vy a + vy b) (vz a + vz b)"

text \<open>
  \<^verbatim>\<open>v.lerpVectors(v1, v2, alpha)\<close> of three.js: each component is
  \<^verbatim>\<open>v1.x + (v2.x - v1.x) * alpha\<close>.
\<close>

definition lerpVectors :: "Vector3 \<Rightarrow> Vector3 \<Rightarrow> jsnum \<Rightarrow> Vector3" where
  "lerpVectors v1 v2 alpha =
     Vector3 (vx v1 + (vx v2 - vx v1) * alpha)
             (vy v1 + (vy v2 - vy v1) * alpha)
             (vz v1 + (vz v2 - vz v1) * alpha)"

text \<open>\<^verbatim>\<open>a.distanceTo(b)\<close> of three.js: the Euclidean distance.\<close>

definition distanceTo :: "Vector3 \<Rightarrow> Vector3 \<Rightarrow> jsnum" where
  "distanceTo a b =
     (let dx = vx a - vx b; dy = vy a - vy b; dz = vz a - vz b
      in Math_sqrt (dx * dx + dy * dy + dz * dz))"

fun finite_vec :: "Vector3 \<Rightarrow> bool" where
  "finite_vec (Vector3 a b c) = (is_finite a \<and> is_finite b \<and> is_finite c)"

section \<open>PlanetSystem (src/planets.js)\<close>

text \<open>
  \<^verbatim>\<open>planet.userData\<close>, with the fields the update loop and the camera read. The
  field \<^verbatim>\<open>id\<close> is \<open>body_id\<close> here (\<open>id\<close> is HOL's identity function);
  \<^verbatim>\<open>parent\<close> is a string or null.
\<close>

record userData =
  body_id :: string
  orbitalRadius :: jsnum
  orbitalPeriod :: jsnum
  rotationPeriod :: jsnum
  currentAngle :: jsnum
  isStar :: bool
  isSatellite :: bool
  parent :: "string option"

text \<open>
  A planet mesh: \<^verbatim>\<open>planet.position\<close>, \<^verbatim>\<open>planet.rotation.y\<close>,
  \<^verbatim>\<open>planet.geometry.parameters.radius\<close> and \<^verbatim>\<open>planet.userData\<close>.
\<close>

record Mesh =
  position :: Vector3
  rotation_y :: jsnum
  geometry_radius :: jsnum
  userData :: userData

record PlanetSystem =
  planets :: "Mesh list"
  timeSpeed :: jsnum
  isPaused :: bool

text \<open>The constructor: no planets, one day per second, running.\<close>

definition newPlanetSystem :: PlanetSystem where
  "newPlanetSystem = \<lparr>planets = [], timeSpeed = Num 1, isPaused = False\<rparr>"

text \<open>\<^verbatim>\<open>this.planets.find(p => p.userData.id === id)\<close>: the first match, or undefined.\<close>

definition getPlanetById :: "Mesh list \<Rightarrow> string \<Rightarrow> Mesh option" where
  "getPlanetById ps i = find (\<lambda>p. body_id (userData p) = i) ps"

text \<open>Truthiness of \<^verbatim>\<open>userData.parent\<close>: null and the empty string are falsy.\<close>

fun truthy :: "string option \<Rightarrow> bool" where
  "truthy None = False"
| "truthy (Some s) = (s \<noteq> [])"

text \<open>
  The body of the \<^verbatim>\<open>forEach\<close> callback of \<^verbatim>\<open>updatePositions\<close>, for one planet.
  \<open>ps\<close> is \<^verbatim>\<open>this.planets\<close> as it stands when the callback runs: the planets before
  this one already updated in this call, this one and the later ones not yet.
\<close>

definition updatePlanet :: "jsnum \<Rightarrow> jsnum \<Rightarrow> Mesh list \<Rightarrow> Mesh \<Rightarrow> Mesh" where
  "updatePlanet deltaTime speed ps planet =
     (let u = userData planet;
          rotated = planet\<lparr>rotation_y :=
            rotation_y planet + (Num 2 * Num pi / (rotationPeriod u * Num 3600)) * deltaTime * speed\<rparr>
      in if isStar u then rotated
         else if isSatellite u \<and> truthy (parent u) then
           (case getPlanetById ps (the (parent u)) of
              None \<Rightarrow> rotated
            | Some parentPlanet \<Rightarrow>
                let angularVelocity = (Num 2 * Num pi) / (orbitalPeriod u * Num 86400);
                    angle = currentAngle u + angularVelocity * deltaTime * speed * Num 86400;
                    offsetX = orbitalRadius u * Math_cos angle;
                    offsetZ = orbitalRadius u * Math_sin angle
                in rotated\<lparr>userData := u\<lparr>currentAngle := angle\<rparr>,
                     position := Vector3 (vx (position parentPlanet) + offsetX)
                                         (vy (position parentPlanet))
                                         (vz (position parentPlanet) + offsetZ)\<rparr>)
         else
           (let angularVelocity = (Num 2 * Num pi) / (orbitalPeriod u * Num 86400);
                angle = currentAngle u + angularVelocity * deltaTime * speed * Num 86400
            in rotated\<lparr>userData := u\<lparr>currentAngle := angle\<rparr>,
                 position := Vector3 (orbitalRadius u * Math_cos angle)
                                     (vy (position planet))
                                     (orbitalRadius u * Math_sin angle)\<rparr>))"

text \<open>
  \<^verbatim>\<open>this.planets.forEach(...)\<close>: the planets in array order, each updated in place.
  \<open>done\<close> are the planets already updated, the second list those still to do.
\<close>

fun forEach_planets :: "jsnum \<Rightarrow> jsnum \<Rightarrow> Mesh list \<Rightarrow> Mesh list \<Rightarrow> Mesh list" where
  "forEach_planets deltaTime speed done [] = done"
| "forEach_planets deltaTime speed done (planet # rest) =
     forEach_planets deltaTime speed
       (done @ [updatePlanet deltaTime speed (done @ planet # rest) planet]) rest"

definition updatePositions :: "jsnum \<Rightarrow> PlanetSystem \<Rightarrow> PlanetSystem" where
  "updatePositions deltaTime s =
     (if isPaused s then s
      else s\<lparr>planets := forEach_planets deltaTime (timeSpeed s) [] (planets s)\<rparr>)"

definition togglePause :: "PlanetSystem \<Rightarrow> bool \<times> PlanetSystem" where
  "togglePause s = (\<not> isPaused s, s\<lparr>isPaused := \<not> isPaused s\<rparr>)"

definition setPaused :: "bool \<Rightarrow> PlanetSystem \<Rightarrow> PlanetSystem" where
  "setPaused paused s = s\<lparr>isPaused := paused\<rparr>"

definition setTimeSpeed :: "jsnum \<Rightarrow> PlanetSystem \<Rightarrow> PlanetSystem" where
  "setTimeSpeed speed s = s\<lparr>timeSpeed := speed\<rparr>"

text \<open>
  A run of frames: before each call of \<^verbatim>\<open>updatePositions(deltaTime)\<close> the speed
  slider may have set a new time speed.
\<close>

fun advance_all :: "(jsnum \<times> jsnum) list \<Rightarrow> PlanetSystem \<Rightarrow> PlanetSystem" where
  "advance_all [] s = s"
| "advance_all ((deltaTime, speed) # calls) s =
     advance_all calls (updatePositions deltaTime (setTimeSpeed speed s))"

text \<open>A run of frames at the time speed the system has.\<close>

fun run_frames :: "jsnum list \<Rightarrow> PlanetSystem \<Rightarrow> PlanetSystem" where
  "run_frames [] s = s"
| "run_frames (deltaTime # rest) s = run_frames rest (updatePositions deltaTime s)"

text \<open>
  A planet all of whose numbers are finite, with periods that are not zero (a star's
  orbital period is never read).
\<close>

definition finite_body :: "Mesh \<Rightarrow> bool" where
  "finite_body p =
     (let u = userData p
      in finite_vec (position p) \<and> is_finite (rotation_y p) \<and>
         is_finite (currentAngle u) \<and> is_finite (orbitalRadius u) \<and>
         is_finite (rotationPeriod u) \<and> rotationPeriod u \<noteq> Num 0 \<and>
         (isStar u \<or> is_finite (orbitalPeriod u) \<and> orbitalPeriod u \<noteq> Num 0))"

text \<open>
  A planet that stands where the update loop would put it for the angle it has: a
  planet on its circle around the origin, a satellite on its circle around the parent
  that \<^verbatim>\<open>getPlanetById\<close> finds in \<open>ps\<close>.
\<close>

definition in_place :: "Mesh list \<Rightarrow> Mesh \<Rightarrow> bool" where
  "in_place ps p =
     (let u = userData p
      in if isStar u then True
         else if isSatellite u \<and> truthy (parent u) then
           (case getPlanetById ps (the (parent u)) of
              None \<Rightarrow> True
            | Some q \<Rightarrow>
                position p =
                  Vector3 (vx (position q) + orbitalRadius u * Math_cos (currentAngle u))
                          (vy (position q))
                          (vz (position q) + orbitalRadius u * Math_sin (currentAngle u)))
         else vx (position p) = orbitalRadius u * Math_cos (currentAngle u) \<and>
              vz (position p) = orbitalRadius u * Math_sin (currentAngle u))"

text \<open>
  A planet descriptor of \<^verbatim>\<open>/data/planets.json\<close>, with the fields \<^verbatim>\<open>createPlanet\<close>
  stores for the update loop (\<^verbatim>\<open>id\<close>, \<^verbatim>\<open>type\<close> and \<^verbatim>\<open>parent\<close> are prefixed
  with \<open>data_\<close>). A numeric field that the descriptor lacks reads as NaN.
\<close>

record planetData =
  data_id :: string
  data_type :: string
  relative_scale :: jsnum
  orbital_radius_au :: jsnum
  orbital_radius_earth :: jsnum
  orbital_period_days :: jsnum
  rotation_period_hours :: jsnum
  data_parent :: "string option"

text \<open>
  \<^verbatim>\<open>loadPlanetsData\<close>: the argument is the outcome of \<^verbatim>\<open>fetch\<close> and
  \<^verbatim>\<open>response.json()\<close>, either the error thrown or the parsed data. The
  \<^verbatim>\<open>catch\<close> branch logs the error and returns the empty array.
\<close>

definition loadPlanetsData :: "string + planetData list \<Rightarrow> planetData list" where
  "loadPlanetsData response = (case response of Inl error \<Rightarrow> [] | Inr data \<Rightarrow> data)"

text \<open>
  \<^verbatim>\<open>createPlanet(planetData)\<close>: geometry, texture, material, ring, orbit path and label
  are left out. \<open>random\<close> is the value that the call of \<^verbatim>\<open>Math.random()\<close> returns, a
  draw of the environment in \<open>[0, 1)\<close>. A new mesh stands at the origin with rotation 0.
  The result is the new mesh and the system with the mesh pushed on \<^verbatim>\<open>this.planets\<close>.
\<close>

definition createPlanet :: "planetData \<Rightarrow> real \<Rightarrow> PlanetSystem \<Rightarrow> Mesh \<times> PlanetSystem" where
  "createPlanet planetData random s =
     (let star = (data_type planetData = ''star'');
          satellite = (data_type planetData = ''satellite'');
          u = \<lparr>body_id = data_id planetData,
               orbitalRadius =
                 (if satellite then or_default (orbital_radius_earth planetData) (Num 5)
                  else orbital_radius_au planetData * Num 50),
               orbitalPeriod = orbital_period_days planetData,
               rotationPeriod = rotation_period_hours planetData,
               currentAngle = Num random * Num pi * Num 2,
               isStar = star,
               isSatellite = satellite,
               parent = (if truthy (data_parent planetData) then data_parent planetData else None)\<rparr>;
          planet = \<lparr>position =
                      (if \<not> star \<and> \<not> satellite
                       then Vector3 (orbitalRadius u * Math_cos (currentAngle u)) (Num 0)
                                    (orbitalRadius u * Math_sin (currentAngle u))
                       else Vector3 (Num 0) (Num 0) (Num 0)),
                    rotation_y = Num 0,
                    geometry_radius = relative_scale planetData,
                    userData = u\<rparr>
      in (planet, s\<lparr>planets := planets s @ [planet]\<rparr>))"

text \<open>
  The loop of \<^verbatim>\<open>init\<close> in src/main.js: one \<^verbatim>\<open>createPlanet\<close> per descriptor, in
  the order of the data, each with its own draw of \<^verbatim>\<open>Math.random()\<close>.
\<close>

fun createAll :: "(planetData \<times> real) list \<Rightarrow> PlanetSystem \<Rightarrow> PlanetSystem" where
  "createAll [] s = s"
| "createAll ((planetData, random) # rest) s = createAll rest (snd (createPlanet planetData random s))"

section \<open>Controls (src/controls.js)\<close>

text \<open>
  The variables that an \<^verbatim>\<open>animate\<close> closure captures. The closure of
  \<^verbatim>\<open>resetCamera\<close> has the same body as the one of \<^verbatim>\<open>focusOnPlanet\<close>, with
  \<^verbatim>\<open>defaultCameraPos\<close> for \<open>targetCameraPos\<close> and \<^verbatim>\<open>defaultTarget\<close> for
  \<open>targetFocus\<close>.
\<close>

record animation =
  startCameraPos :: Vector3
  targetCameraPos :: Vector3
  startTarget :: Vector3
  targetFocus :: Vector3
  startTime :: jsnum
  durationMs :: jsnum

text \<open>
  The OrbitControls object of three.js together with the camera it moves:
  \<^verbatim>\<open>camera.position\<close>, \<^verbatim>\<open>controls.target\<close> and whatever else the library keeps
  (damping, pointer state), of a type \<open>'o\<close> left open. Its method \<^verbatim>\<open>update()\<close> is not
  code of this repository: it is a parameter \<open>update\<close> of the functions below.
\<close>

record 'o OrbitControls =
  camera_position :: Vector3
  target :: Vector3
  hidden :: 'o

text \<open>
  \<open>frameRequests\<close> are the \<^verbatim>\<open>animate\<close> closures handed to
  \<^verbatim>\<open>requestAnimationFrame\<close> and not yet called.
\<close>

record 'o Controls =
  controls :: "'o OrbitControls"
  isFocusing :: bool
  frameRequests :: "animation list"

definition requestAnimationFrame :: "animation \<Rightarrow> 'o Controls \<Rightarrow> 'o Controls" where
  "requestAnimationFrame a c = c\<lparr>frameRequests := frameRequests c @ [a]\<rparr>"

text \<open>The easing expression of both closures, as a function of \<open>t\<close>.\<close>

definition eased :: "jsnum \<Rightarrow> jsnum" where
  "eased t =
     (if jlt t (Num 0.5) then Num 4 * t * t * t
      else Num 1 - Math_pow3 (Num (- 2) * t + Num 2) / Num 2)"

text \<open>
  One call \<^verbatim>\<open>animate(time)\<close> of a closure \<open>a\<close> that the browser took from the frame
  requests.
\<close>

definition animate ::
  "('o OrbitControls \<Rightarrow> 'o OrbitControls) \<Rightarrow> animation \<Rightarrow> jsnum \<Rightarrow> 'o Controls \<Rightarrow> 'o Controls" where
  "animate update a time c =
     (let elapsed = time - startTime a;
          t = Math_min (elapsed / durationMs a) (Num 1);
          moved = update ((controls c)
                    \<lparr>camera_position := lerpVectors (startCameraPos a) (targetCameraPos a) (eased t),
                     target := lerpVectors (startTarget a) (targetFocus a) (eased t)\<rparr>);
          c' = c\<lparr>controls := moved\<rparr>
      in if jlt t (Num 1) then requestAnimationFrame a c' else c'\<lparr>isFocusing := False\<rparr>)"

text \<open>
  One frame of the browser: the closures requested so far are called once each with the
  time of the frame; what they request is for the next frame.
\<close>

definition runFrame ::
  "('o OrbitControls \<Rightarrow> 'o OrbitControls) \<Rightarrow> jsnum \<Rightarrow> 'o Controls \<Rightarrow> 'o Controls" where
  "runFrame update time c =
     foldl (\<lambda>c a. animate update a time c) (c\<lparr>frameRequests := []\<rparr>) (frameRequests c)"

text \<open>What a JavaScript function of this file can return: both return \<^verbatim>\<open>undefined\<close>.\<close>

datatype js_value = JSUndefined | JSBoolean bool

text \<open>
  \<^verbatim>\<open>focusOnPlanet(planet, durationMs)\<close>; \<open>now\<close> is the value of
  \<^verbatim>\<open>performance.now()\<close>. The result is the returned value and the new state.
\<close>

definition focusOnPlanet :: "Mesh \<Rightarrow> jsnum \<Rightarrow> jsnum \<Rightarrow> 'o Controls \<Rightarrow> js_value \<times> 'o Controls" where
  "focusOnPlanet planet duration now c =
     (if isFocusing c then (JSUndefined, c)
      else
        let focus = position planet;
            planetRadius = geometry_radius planet;
            distance = Math_max (planetRadius * Num 5) (Num 10);
            angle = or_default (currentAngle (userData planet)) (Num 0);
            cameraOffset = Vector3 (- Math_cos angle * distance) (distance * Num 0.5)
                                   (- Math_sin angle * distance);
            a = \<lparr>startCameraPos = camera_position (controls c),
                 targetCameraPos = vadd focus cameraOffset,
                 startTarget = target (controls c),
                 targetFocus = focus,
                 startTime = now,
                 durationMs = duration\<rparr>
        in (JSUndefined, requestAnimationFrame a (c\<lparr>isFocusing := True\<rparr>)))"

text \<open>\<^verbatim>\<open>resetCamera(durationMs)\<close>\<close>

definition resetCamera :: "jsnum \<Rightarrow> jsnum \<Rightarrow> 'o Controls \<Rightarrow> js_value \<times> 'o Controls" where
  "resetCamera duration now c =
     (if isFocusing c then (JSUndefined, c)
      else
        let a = \<lparr>startCameraPos = camera_position (controls c),
                 targetCameraPos = Vector3 (Num 0) (Num 50) (Num 100),
                 startTarget = target (controls c),
                 targetFocus = Vector3 (Num 0) (Num 0) (Num 0),
                 startTime = now,
                 durationMs = duration\<rparr>
        in (JSUndefined, requestAnimationFrame a (c\<lparr>isFocusing := True\<rparr>)))"

section \<open>A small solar system\<close>

text \<open>Three descriptors, and the system \<^verbatim>\<open>init\<close> builds from them when every draw is 0.\<close>

definition sun_data :: planetData where
  "sun_data = \<lparr>data_id = ''sun'', data_type = ''star'', relative_scale = Num 10,
     orbital_radius_au = Num 0, orbital_radius_earth = NaN, orbital_period_days = Num 1,
     rotation_period_hours = Num 600, data_parent = None\<rparr>"

definition earth_data :: planetData where
  "earth_data = \<lparr>data_id = ''earth'', data_type = ''planet'', relative_scale = Num 1,
     orbital_radius_au = Num 1, orbital_radius_earth = NaN, orbital_period_days = Num 365.25,
     rotation_period_hours = Num 24, data_parent = None\<rparr>"

definition moon_data :: planetData where
  "moon_data = \<lparr>data_id = ''moon'', data_type = ''satellite'', relative_scale = Num 0.27,
     orbital_radius_au = NaN, orbital_radius_earth = Num 3, orbital_period_days = Num 27.3,
     rotation_period_hours = Num 655.2, data_parent = Some ''earth''\<rparr>"

definition demo_system :: PlanetSystem where
  "demo_system = createAll [(sun_data, 0), (earth_data, 0), (moon_data, 0)] newPlanetSystem"

definition demo_controls :: "unit Controls" where
  "demo_controls =
     \<lparr>controls = \<lparr>camera_position = Vector3 (Num 0) (Num 50) (Num 100),
                   target = Vector3 (Num 0) (Num 0) (Num 0), hidden = ()\<rparr>,
      isFocusing = False, frameRequests = []\<rparr>"

text \<open>A planet with a period of two days and its satellite with a period of one.\<close>

definition fast_planet_data :: planetData where
  "fast_planet_data = \<lparr>data_id = ''earth'', data_type = ''planet'', relative_scale = Num 1,
     orbital_radius_au = Num 1, orbital_radius_earth = NaN, orbital_period_days = Num 2,
     rotation_period_hours = Num 24, data_parent = None\<rparr>"

definition fast_moon_data :: planetData where
  "fast_moon_data = \<lparr>data_id = ''moon'', data_type = ''satellite'', relative_scale = Num 0.27,
     orbital_radius_au = NaN, orbital_radius_earth = Num 3, orbital_period_days = Num 1,
     rotation_period_hours = Num 24, data_parent = Some ''earth''\<rparr>"

text \<open>The same two bodies with the planet first, and with the satellite first.\<close>

definition planet_first :: PlanetSystem where
  "planet_first = createAll [(fast_planet_data, 0), (fast_moon_data, 0)] newPlanetSystem"

definition satellite_first :: PlanetSystem where
  "satellite_first = createAll [(fast_moon_data, 0), (fast_planet_data, 0)] newPlanetSystem"

text \<open>A satellite whose parent is not in the system.\<close>

definition orphan_system :: PlanetSystem where
  "orphan_system = createAll [(fast_moon_data, 0)] newPlanetSystem"

text \<open>A planet whose descriptor gives an orbital period of zero days.\<close>

definition zero_period_data :: planetData where
  "zero_period_data = fast_planet_data\<lparr>orbital_period_days := Num 0\<rparr>"

text \<open>
  The controls after \<^verbatim>\<open>focusOnPlanet(earth, 2000)\<close> at time 1000, from the overview.
\<close>

definition focus_started :: "unit Controls" where
  "focus_started = snd (focusOnPlanet (planets demo_system ! 1) (Num 2000) (Num 1000) demo_controls)"

text \<open>
  Controls whose camera looks at the earth, and the same after
  \<^verbatim>\<open>resetCamera(-1000)\<close> at time 0.
\<close>

definition near_earth_controls :: "unit Controls" where
  "near_earth_controls =
     \<lparr>controls = \<lparr>camera_position = Vector3 (Num 40) (Num 5) (Num 0),
                   target = Vector3 (Num 50) (Num 0) (Num 0), hidden = ()\<rparr>,
      isFocusing = False, frameRequests = []\<rparr>"

definition negative_reset :: "unit Controls" where
  "negative_reset = snd (resetCamera (Num (- 1000)) (Num 0) near_earth_controls)"

section \<open>Double arithmetic\<close>

text \<open>
  Where a claim speaks of a tolerance, or of the exact equality of computed numbers, the
  rounding of the doubles decides. \<open>fl\<close> rounds a real number to the nearest double:
  a significand of 53 bits, ties to the even significand. The range of the exponent is
  taken as unbounded, so that overflow and subnormal numbers are left out; none of the
  numbers below comes near either.
\<close>

definition round_half_even :: "real \<Rightarrow> int" where
  "round_half_even y =
     (let f = \<lfloor>y\<rfloor>
      in if y - of_int f < 1 / 2 then f
         else if 1 / 2 < y - of_int f then f + 1
         else if even f then f else f + 1)"

definition fl :: "real \<Rightarrow> real" where
  "fl x =
     (if x = 0 then 0
      else let e = \<lfloor>log 2 \<bar>x\<bar>\<rfloor>
           in of_int (round_half_even (x / 2 powi (e - 52))) * 2 powi (e - 52))"

text \<open>\<^verbatim>\<open>Math.PI\<close>, the double next to \<open>\<pi>\<close>: 3.141592653589793.\<close>

definition Math_PI :: real where
  "Math_PI = 884279719003555 / 2 ^ 48"

text \<open>
  The two lines of \<^verbatim>\<open>updatePositions\<close> that advance the angle of a planet, with
  every operation rounded as the doubles round it:
  \<^verbatim>\<open>angularVelocity = (2 * Math.PI) / (userData.orbitalPeriod * 86400)\<close> and
  \<^verbatim>\<open>userData.currentAngle += angularVelocity * deltaTime * this.timeSpeed * 86400\<close>.
  The result is the new angle.
\<close>

definition angle_step_double :: "real \<Rightarrow> real \<Rightarrow> real \<Rightarrow> real \<Rightarrow> real" where
  "angle_step_double period deltaTime speed angle =
     (let angularVelocity = fl (fl (2 * Math_PI) / fl (period * 86400))
      in fl (angle + fl (fl (fl (angularVelocity * deltaTime) * speed) * 86400)))"

text \<open>The angle of a planet over a run of frames at one time speed.\<close>

fun angle_run_double :: "real \<Rightarrow> real \<Rightarrow> real list \<Rightarrow> real \<Rightarrow> real" where
  "angle_run_double period speed [] angle = angle"
| "angle_run_double period speed (deltaTime # rest) angle =
     angle_run_double period speed rest (angle_step_double period deltaTime speed angle)"

text \<open>
  One component of \<^verbatim>\<open>lerpVectors\<close> of three.js,
  \<^verbatim>\<open>v1.x + (v2.x - v1.x) * alpha\<close>, with every operation rounded.
\<close>

definition lerp_double :: "real \<Rightarrow> real \<Rightarrow> real \<Rightarrow> real" where
  "lerp_double v1 v2 alpha = fl (v1 + fl (fl (v2 - v1) * alpha))"

section \<open>The update loop, planet by planet\<close>

text \<open>
  The loop keeps the number of planets, leaves the planets it has passed as they are,
  and gives planet \<open>k\<close> of the remaining ones the result of the callback on the array
  as it stands then: the updated planets before it, and the old ones from it on.
\<close>

lemma forEach_planets_length:
  "length (forEach_planets d sp done rest) = length done + length rest"
  by (induction rest arbitrary: "done") simp_all

lemma forEach_planets_done:
  "take (length done) (forEach_planets d sp done rest) = done"
proof (induction rest arbitrary: "done")
  case Nil
  show ?case by simp
next
  case (Cons p rest)
  let ?done = "done @ [updatePlanet d sp (done @ p # rest) p]"
  have "take (length ?done) (forEach_planets d sp ?done rest) = ?done"
    by (rule Cons.IH)
  then have "take (length done) (take (length ?done) (forEach_planets d sp ?done rest)) = take (length done) ?done"
    by simp
  then show ?case by (simp add: min_def)
qed

lemma forEach_planets_done_nth:
  "k < length done \<Longrightarrow> forEach_planets d sp done rest ! k = done ! k"
proof -
  assume k: "k < length done"
  have "forEach_planets d sp done rest ! k = take (length done) (forEach_planets d sp done rest) ! k"
    using k by simp
  then show ?thesis by (simp add: forEach_planets_done)
qed

lemma forEach_planets_nth:
  "k < length rest \<Longrightarrow>
     forEach_planets d sp done rest ! (length done + k) =
       updatePlanet d sp (take (length done + k) (forEach_planets d sp done rest) @ drop k rest) (rest ! k)"
proof (induction rest arbitrary: "done" k)
  case Nil
  then show ?case by simp
next
  case (Cons p rest)
  let ?p = "updatePlanet d sp (done @ p # rest) p"
  let ?done = "done @ [?p]"
  let ?res = "forEach_planets d sp ?done rest"
  show ?case
  proof (cases k)
    case 0
    have "?res ! length done = ?done ! length done"
      by (rule forEach_planets_done_nth) simp
    moreover have "take (length done) ?res = done"
    proof -
      have "take (length ?done) ?res = ?done" by (rule forEach_planets_done)
      then have "take (length done) (take (length ?done) ?res) = take (length done) ?done"
        by simp
      then show ?thesis by (simp add: min_def)
    qed
    ultimately show ?thesis using 0 by simp
  next
    case (Suc k')
    then have k': "k' < length rest" using Cons.prems by simp
    have "?res ! (length ?done + k') =
        updatePlanet d sp (take (length ?done + k') ?res @ drop k' rest) (rest ! k')"
      by (rule Cons.IH [OF k'])
    then show ?thesis using Suc by simp
  qed
qed

lemma updatePlanet_static:
  "body_id (userData (updatePlanet d sp ps p)) = body_id (userData p)"
  "orbitalRadius (userData (updatePlanet d sp ps p)) = orbitalRadius (userData p)"
  "orbitalPeriod (userData (updatePlanet d sp ps p)) = orbitalPeriod (userData p)"
  "rotationPeriod (userData (updatePlanet d sp ps p)) = rotationPeriod (userData p)"
  "isStar (userData (updatePlanet d sp ps p)) = isStar (userData p)"
  "isSatellite (userData (updatePlanet d sp ps p)) = isSatellite (userData p)"
  "parent (userData (updatePlanet d sp ps p)) = parent (userData p)"
  by (simp_all add: updatePlanet_def Let_def split: option.split)

lemma forEach_planets_ids:
  "map (\<lambda>p. body_id (userData p)) (forEach_planets d sp done rest) =
   map (\<lambda>p. body_id (userData p)) (done @ rest)"
  by (induction rest arbitrary: "done") (simp_all add: updatePlanet_static)

lemma forEach_planets_id_nth:
  assumes "k < length ps"
  shows "body_id (userData (forEach_planets d sp [] ps ! k)) = body_id (userData (ps ! k))"
proof -
  have "map (\<lambda>p. body_id (userData p)) (forEach_planets d sp [] ps) ! k =
        map (\<lambda>p. body_id (userData p)) ps ! k"
    using forEach_planets_ids [of d sp "[]" ps] by simp
  then show ?thesis using assms by (simp add: forEach_planets_length)
qed

lemma getPlanetById_first:
  assumes "j < length ps" and "body_id (userData (ps ! j)) = pid"
    and "\<forall>k<j. body_id (userData (ps ! k)) \<noteq> pid"
  shows "getPlanetById ps pid = Some (ps ! j)"
  unfolding getPlanetById_def find_Some_iff using assms by blast

lemma getPlanetById_in_set: "getPlanetById ps pid = Some q \<Longrightarrow> q \<in> set ps"
  unfolding getPlanetById_def find_Some_iff by auto

lemma is_finite_iff: "is_finite v = (\<exists>r. v = Num r)"
  by (cases v) simp_all

lemma finite_vec_iff: "finite_vec v = (\<exists>a b c. v = Vector3 (Num a) (Num b) (Num c))"
  by (cases v) (simp add: is_finite_iff)

lemma is_finite_plus: "is_finite a \<Longrightarrow> is_finite b \<Longrightarrow> is_finite (a + b)"
  by (cases a; cases b) simp_all

lemma is_finite_times: "is_finite a \<Longrightarrow> is_finite b \<Longrightarrow> is_finite (a * b)"
  by (cases a; cases b) simp_all

lemma is_finite_divide: "is_finite a \<Longrightarrow> is_finite b \<Longrightarrow> b \<noteq> Num 0 \<Longrightarrow> is_finite (a / b)"
  by (cases a; cases b) simp_all

lemma nonzero_times: "is_finite b \<Longrightarrow> b \<noteq> Num 0 \<Longrightarrow> c \<noteq> 0 \<Longrightarrow> b * Num c \<noteq> Num 0"
  by (cases b) simp_all

lemma is_finite_cos: "is_finite a \<Longrightarrow> is_finite (Math_cos a)"
  by (cases a) simp_all

lemma is_finite_sin: "is_finite a \<Longrightarrow> is_finite (Math_sin a)"
  by (cases a) simp_all

lemma finite_vec_sel: "finite_vec v = (is_finite (vx v) \<and> is_finite (vy v) \<and> is_finite (vz v))"
  by (cases v) simp

lemmas is_finite_intros = is_finite_plus is_finite_times is_finite_divide nonzero_times
  is_finite_cos is_finite_sin

lemma updatePlanet_star:
  assumes "isStar (userData p)"
  shows "updatePlanet d sp ps p =
    p\<lparr>rotation_y := rotation_y p + Num 2 * Num pi / (rotationPeriod (userData p) * Num 3600) * d * sp\<rparr>"
  using assms unfolding updatePlanet_def Let_def by (simp only: if_True)

lemma updatePlanet_orphan:
  assumes "\<not> isStar (userData p)" and "isSatellite (userData p)" and "truthy (parent (userData p))"
    and "getPlanetById ps (the (parent (userData p))) = None"
  shows "updatePlanet d sp ps p =
    p\<lparr>rotation_y := rotation_y p + Num 2 * Num pi / (rotationPeriod (userData p) * Num 3600) * d * sp\<rparr>"
  using assms unfolding updatePlanet_def Let_def by (simp only: if_True if_False simp_thms option.case)

lemma updatePlanet_moon:
  assumes "\<not> isStar (userData p)" and "isSatellite (userData p)" and "truthy (parent (userData p))"
    and "getPlanetById ps (the (parent (userData p))) = Some q"
  shows "updatePlanet d sp ps p =
    p\<lparr>rotation_y := rotation_y p + Num 2 * Num pi / (rotationPeriod (userData p) * Num 3600) * d * sp,
      userData := (userData p)\<lparr>currentAngle :=
        currentAngle (userData p) + Num 2 * Num pi / (orbitalPeriod (userData p) * Num 86400) * d * sp * Num 86400\<rparr>,
      position := Vector3
        (vx (position q) + orbitalRadius (userData p) * Math_cos
          (currentAngle (userData p) + Num 2 * Num pi / (orbitalPeriod (userData p) * Num 86400) * d * sp * Num 86400))
        (vy (position q))
        (vz (position q) + orbitalRadius (userData p) * Math_sin
          (currentAngle (userData p) + Num 2 * Num pi / (orbitalPeriod (userData p) * Num 86400) * d * sp * Num 86400))\<rparr>"
  using assms unfolding updatePlanet_def Let_def by (simp only: if_True if_False simp_thms option.case)

lemma updatePlanet_planet:
  assumes "\<not> isStar (userData p)" and "\<not> (isSatellite (userData p) \<and> truthy (parent (userData p)))"
  shows "updatePlanet d sp ps p =
    p\<lparr>rotation_y := rotation_y p + Num 2 * Num pi / (rotationPeriod (userData p) * Num 3600) * d * sp,
      userData := (userData p)\<lparr>currentAngle :=
        currentAngle (userData p) + Num 2 * Num pi / (orbitalPeriod (userData p) * Num 86400) * d * sp * Num 86400\<rparr>,
      position := Vector3
        (orbitalRadius (userData p) * Math_cos
          (currentAngle (userData p) + Num 2 * Num pi / (orbitalPeriod (userData p) * Num 86400) * d * sp * Num 86400))
        (vy (position p))
        (orbitalRadius (userData p) * Math_sin
          (currentAngle (userData p) + Num 2 * Num pi / (orbitalPeriod (userData p) * Num 86400) * d * sp * Num 86400))\<rparr>"
  using assms unfolding updatePlanet_def Let_def by (simp only: if_False)

lemma updatePlanet_finite:
  assumes p: "finite_body p" and ps: "\<forall>q\<in>set ps. finite_body q"
  shows "finite_body (updatePlanet (Num d) (Num sp) ps p)"
proof -
  let ?u = "userData p"
  let ?rot = "rotation_y p + Num 2 * Num pi / (rotationPeriod ?u * Num 3600) * Num d * Num sp"
  let ?angle = "currentAngle ?u + Num 2 * Num pi / (orbitalPeriod ?u * Num 86400) * Num d * Num sp * Num 86400"
  have rot: "is_finite ?rot"
    using p by (simp add: finite_body_def Let_def is_finite_intros del: times_jsnum.simps)
  show ?thesis
  proof (cases "isStar ?u")
    case True
    then show ?thesis using p rot
      by (simp add: updatePlanet_star finite_body_def Let_def del: times_jsnum.simps)
  next
    case False
    then have angle: "is_finite ?angle"
      using p by (simp add: finite_body_def Let_def is_finite_intros del: times_jsnum.simps)
    show ?thesis
    proof (cases "isSatellite ?u \<and> truthy (parent ?u)")
      case sat: True
      show ?thesis
      proof (cases "getPlanetById ps (the (parent ?u))")
        case None
        then show ?thesis using p rot False sat
          by (simp add: updatePlanet_orphan finite_body_def Let_def del: times_jsnum.simps)
      next
        case (Some q)
        then have "finite_body q" using ps getPlanetById_in_set by blast
        then have "finite_vec (position q)" by (simp add: finite_body_def Let_def)
        then show ?thesis using p rot angle False sat Some
          by (simp add: updatePlanet_moon [of p ps q] finite_body_def Let_def finite_vec_sel is_finite_intros
                del: times_jsnum.simps)
      qed
    next
      case nosat: False
      show ?thesis using p rot angle
        by (simp add: updatePlanet_planet [OF False nosat] finite_body_def Let_def finite_vec_sel is_finite_intros
              del: times_jsnum.simps)
    qed
  qed
qed

lemma forEach_planets_finite:
  assumes "\<forall>q\<in>set done. finite_body q" and "\<forall>q\<in>set rest. finite_body q"
  shows "\<forall>q\<in>set (forEach_planets (Num d) (Num sp) done rest). finite_body q"
  using assms
proof (induction rest arbitrary: "done")
  case Nil
  then show ?case by simp
next
  case (Cons p rest)
  let ?p = "updatePlanet (Num d) (Num sp) (done @ p # rest) p"
  have all: "\<forall>q\<in>set (done @ p # rest). finite_body q"
    using Cons.prems by auto
  have "finite_body p" using Cons.prems(2) by simp
  then have "finite_body ?p"
    using all by (rule updatePlanet_finite)
  then have 1: "\<forall>q\<in>set (done @ [?p]). finite_body q"
    using Cons.prems(1) by auto
  have 2: "\<forall>q\<in>set rest. finite_body q" using Cons.prems(2) by simp
  have "\<forall>q\<in>set (forEach_planets (Num d) (Num sp) (done @ [?p]) rest). finite_body q"
    using 1 2 by (rule Cons.IH)
  then show ?case by (simp only: forEach_planets.simps)
qed

lemma circle_distance:
  "sqrt ((r * cos a) * (r * cos a) + (r * sin a) * (r * sin a)) = \<bar>r\<bar>"
proof -
  have one: "cos a * cos a + sin a * sin a = 1"
    using sin_cos_squared_add2 [of a] by (simp add: power2_eq_square)
  have "(r * cos a) * (r * cos a) + (r * sin a) * (r * sin a) = r * r * (cos a * cos a + sin a * sin a)"
    by (simp only: distrib_left mult.assoc mult.left_commute [of "cos a" r] mult.left_commute [of "sin a" r])
  then have "(r * cos a) * (r * cos a) + (r * sin a) * (r * sin a) = r * r"
    by (simp only: one mult_1_right)
  then show ?thesis by simp
qed

lemma satellite_distance:
  "distanceTo (Vector3 (Num x + Num r * Math_cos (Num a)) (Num y) (Num z + Num r * Math_sin (Num a)))
              (Vector3 (Num x) (Num y) (Num z)) = Num \<bar>r\<bar>"
proof -
  have "distanceTo (Vector3 (Num x + Num r * Math_cos (Num a)) (Num y) (Num z + Num r * Math_sin (Num a)))
              (Vector3 (Num x) (Num y) (Num z))
        = Num (sqrt ((r * cos a) * (r * cos a) + (r * sin a) * (r * sin a)))"
    by (simp add: distanceTo_def Let_def minus_jsnum_def not_less)
  then show ?thesis by (simp only: circle_distance)
qed

section \<open>Pause\<close>

lemma updatePositions_paused: "isPaused s \<Longrightarrow> updatePositions deltaTime s = s"
  by (simp add: updatePositions_def)

text \<open>
  C5. While the system is paused, any number of calls of \<^verbatim>\<open>updatePositions\<close>, with
  any elapsed times and any time speeds set in between, leaves the list of planets as
  it was (every angle, rotation and position), and the system stays paused.
\<close>

theorem paused_advance_is_noop:
  "isPaused s \<Longrightarrow>
     planets (advance_all calls s) = planets s \<and> isPaused (advance_all calls s)"
proof (induction calls arbitrary: s)
  case Nil
  then show ?case by simp
next
  case (Cons c calls)
  obtain deltaTime speed where c: "c = (deltaTime, speed)" by (cases c)
  let ?s = "setTimeSpeed speed s"
  have p: "isPaused ?s" using Cons.prems by (simp add: setTimeSpeed_def)
  have "advance_all (c # calls) s = advance_all calls ?s"
    using p by (simp add: c updatePositions_paused)
  moreover have "planets ?s = planets s" by (simp add: setTimeSpeed_def)
  ultimately show ?case using Cons.IH [OF p] by simp
qed

theorem paused_advance_is_noop_witness:
  "isPaused (setPaused True demo_system) \<and>
   planets (advance_all [(Num 1, Num 5), (Num 2, Num 0)] (setPaused True demo_system))
     = planets (setPaused True demo_system) \<and>
   isPaused (advance_all [(Num 1, Num 5), (Num 2, Num 0)] (setPaused True demo_system))"
  using paused_advance_is_noop [of "setPaused True demo_system" "[(Num 1, Num 5), (Num 2, Num 0)]"]
  by (simp add: setPaused_def)

lemmas build_defs = createPlanet_def newPlanetSystem_def or_default_def Let_def
  sun_data_def earth_data_def moon_data_def
  fast_planet_data_def fast_moon_data_def zero_period_data_def

lemmas tick_defs = updatePositions_def updatePlanet_def getPlanetById_def

section \<open>Satellites and their parents\<close>

text \<open>
  C1 (amended). In a running system of finite planets, take a satellite whose parent id
  is first borne by a planet that stands before the satellite in \<^verbatim>\<open>this.planets\<close>.
  After \<^verbatim>\<open>updatePositions\<close> the satellite stands at the position the parent has after
  the same call, plus radius times (cos, 0, sin) of the satellite's new angle, and its
  distance to the parent is the absolute value of its orbital radius.
\<close>

theorem satellite_follows_earlier_parent:
  assumes run: "\<not> isPaused s" and speed: "timeSpeed s = Num sp"
    and i: "i < length (planets s)"
    and sat: "\<not> isStar (userData (planets s ! i))" "isSatellite (userData (planets s ! i))"
    and par: "parent (userData (planets s ! i)) = Some pid" "pid \<noteq> []"
    and j: "j < i" "body_id (userData (planets s ! j)) = pid"
    and first: "\<forall>k<j. body_id (userData (planets s ! k)) \<noteq> pid"
    and fin: "\<forall>p\<in>set (planets s). finite_body p"
  shows "let ps' = planets (updatePositions (Num d) s); u = userData (ps' ! i)
         in position (ps' ! i) =
              vadd (position (ps' ! j))
                (Vector3 (orbitalRadius u * Math_cos (currentAngle u)) (Num 0)
                         (orbitalRadius u * Math_sin (currentAngle u))) \<and>
            (\<exists>r. orbitalRadius u = Num r \<and>
                 distanceTo (position (ps' ! i)) (position (ps' ! j)) = Num \<bar>r\<bar>)"
proof -
  let ?ps = "planets s"
  let ?ps' = "forEach_planets (Num d) (Num sp) [] ?ps"
  let ?ctx = "take i ?ps' @ drop i ?ps"
  let ?p = "?ps ! i"
  have upd: "planets (updatePositions (Num d) s) = ?ps'"
    using run speed by (simp add: updatePositions_def)
  have len: "length ?ps' = length ?ps"
    by (simp add: forEach_planets_length)
  have pi: "?ps' ! i = updatePlanet (Num d) (Num sp) ?ctx ?p"
    using forEach_planets_nth [of i ?ps "Num d" "Num sp" "[]"] i by simp
  have ctx_nth: "?ctx ! k = ?ps' ! k" if "k < i" for k
    using that i len by (simp add: nth_append)
  have id_ctx: "body_id (userData (?ctx ! k)) = body_id (userData (?ps ! k))" if "k < i" for k
    using that i ctx_nth [OF that] forEach_planets_id_nth [of k ?ps "Num d" "Num sp"] by simp
  have "j < length ?ctx" using j(1) i len by simp
  moreover have "body_id (userData (?ctx ! j)) = pid" using id_ctx [OF j(1)] j(2) by simp
  moreover have "\<forall>k<j. body_id (userData (?ctx ! k)) \<noteq> pid"
  proof (intro allI impI)
    fix k assume k: "k < j"
    then have "k < i" using j(1) by simp
    then show "body_id (userData (?ctx ! k)) \<noteq> pid" using id_ctx first k by simp
  qed
  ultimately have "getPlanetById ?ctx pid = Some (?ctx ! j)"
    by (rule getPlanetById_first)
  then have found: "getPlanetById ?ctx (the (parent (userData ?p))) = Some (?ps' ! j)"
    using ctx_nth [OF j(1)] par(1) by simp
  have tr: "truthy (parent (userData ?p))" using par by simp
  note moon = updatePlanet_moon [OF sat tr found, of "Num d" "Num sp"]
  have all_fin: "\<forall>q\<in>set ?ps'. finite_body q"
    using forEach_planets_finite [of "[]" ?ps d sp] fin by simp
  have "finite_body (?ps' ! j)" using all_fin j(1) i len by simp
  then obtain x y z where q: "position (?ps' ! j) = Vector3 (Num x) (Num y) (Num z)"
    by (auto simp add: finite_body_def Let_def finite_vec_iff)
  have "finite_body (?ps' ! i)" using all_fin i len by simp
  then obtain a r where a: "currentAngle (userData (?ps' ! i)) = Num a"
    and r: "orbitalRadius (userData (?ps' ! i)) = Num r"
    by (auto simp add: finite_body_def Let_def is_finite_iff)
  have r0: "orbitalRadius (userData ?p) = Num r"
    using r pi by (simp add: updatePlanet_static)
  have a0: "currentAngle (userData ?p) + Num 2 * Num pi / (orbitalPeriod (userData ?p) * Num 86400)
              * Num d * Num sp * Num 86400 = Num a"
    using a by (simp only: pi moon) simp
  have pos: "position (?ps' ! i) =
      Vector3 (Num x + Num r * Math_cos (Num a)) (Num y) (Num z + Num r * Math_sin (Num a))"
    by (simp only: pi moon) (simp only: a0 r0 q, simp)
  have 1: "position (?ps' ! i) =
      vadd (position (?ps' ! j)) (Vector3 (Num r * Math_cos (Num a)) (Num 0) (Num r * Math_sin (Num a)))"
    by (simp add: pos q vadd_def)
  have 2: "distanceTo (position (?ps' ! i)) (position (?ps' ! j)) = Num \<bar>r\<bar>"
    by (simp only: pos q satellite_distance)
  show ?thesis
    unfolding Let_def upd using 1 2 a r by simp
qed

theorem satellite_follows_earlier_parent_witness:
  "\<not> isPaused planet_first \<and>
   isSatellite (userData (planets planet_first ! 1)) \<and>
   parent (userData (planets planet_first ! 1)) = Some ''earth'' \<and>
   body_id (userData (planets planet_first ! 0)) = ''earth'' \<and>
   position (planets (updatePositions (Num 1) planet_first) ! 0) = Vector3 (Num (- 50)) (Num 0) (Num 0) \<and>
   position (planets (updatePositions (Num 1) planet_first) ! 1) = Vector3 (Num (- 47)) (Num 0) (Num 0) \<and>
   distanceTo (position (planets (updatePositions (Num 1) planet_first) ! 1))
              (position (planets (updatePositions (Num 1) planet_first) ! 0)) = Num 3"
  using satellite_follows_earlier_parent [of planet_first 1 1 "''earth''" 0 1]
  by (simp add: planet_first_def build_defs tick_defs finite_body_def vadd_def)

text \<open>
  C1 as stated fails when the satellite stands before its parent in \<^verbatim>\<open>this.planets\<close>:
  the satellite is placed around the position the parent had before the call, and the
  parent moves afterwards. Here the satellite of radius 3 ends 103 away from its parent.
\<close>

theorem satellite_before_parent_counterexample:
  "\<not> isPaused satellite_first \<and>
   isSatellite (userData (planets satellite_first ! 0)) \<and>
   parent (userData (planets satellite_first ! 0)) = Some ''earth'' \<and>
   body_id (userData (planets satellite_first ! 1)) = ''earth'' \<and>
   orbitalRadius (userData (planets satellite_first ! 0)) = Num 3 \<and>
   position (planets (updatePositions (Num 1) satellite_first) ! 1) = Vector3 (Num (- 50)) (Num 0) (Num 0) \<and>
   position (planets (updatePositions (Num 1) satellite_first) ! 0) = Vector3 (Num 53) (Num 0) (Num 0) \<and>
   distanceTo (position (planets (updatePositions (Num 1) satellite_first) ! 0))
              (position (planets (updatePositions (Num 1) satellite_first) ! 1)) = Num 103"
  by (simp add: satellite_first_def build_defs tick_defs distanceTo_def minus_jsnum_def)

section \<open>One frame, one planet\<close>

lemma updatePositions_flags:
  "isPaused (updatePositions d s) = isPaused s"
  "timeSpeed (updatePositions d s) = timeSpeed s"
  "length (planets (updatePositions d s)) = length (planets s)"
  by (simp_all add: updatePositions_def forEach_planets_length)

lemma updatePositions_nth:
  assumes "\<not> isPaused s" and "i < length (planets s)"
  shows "\<exists>ctx. planets (updatePositions d s) ! i = updatePlanet d (timeSpeed s) ctx (planets s ! i)"
proof -
  have "planets (updatePositions d s) = forEach_planets d (timeSpeed s) [] (planets s)"
    using assms(1) by (simp add: updatePositions_def)
  then show ?thesis
    using forEach_planets_nth [of i "planets s" d "timeSpeed s" "[]"] assms(2) by auto
qed

lemma planet_step:
  assumes "\<not> isPaused s" and "timeSpeed s = Num sp" and "i < length (planets s)"
    and "\<not> isStar (userData (planets s ! i))"
    and "\<not> (isSatellite (userData (planets s ! i)) \<and> truthy (parent (userData (planets s ! i))))"
    and "currentAngle (userData (planets s ! i)) = Num a"
    and "orbitalPeriod (userData (planets s ! i)) = Num P" and "P \<noteq> 0"
  shows "userData (planets (updatePositions (Num d) s) ! i) =
           (userData (planets s ! i))\<lparr>currentAngle := Num (a + 2 * pi / (P * 86400) * d * sp * 86400)\<rparr>"
proof -
  obtain ctx where
    "planets (updatePositions (Num d) s) ! i = updatePlanet (Num d) (timeSpeed s) ctx (planets s ! i)"
    using updatePositions_nth [OF assms(1,3)] by blast
  then have "userData (planets (updatePositions (Num d) s) ! i) =
      (userData (planets s ! i))\<lparr>currentAngle := Num a + Num 2 * Num pi / (Num P * Num 86400) * Num d * Num sp * Num 86400\<rparr>"
    using assms(2,6,7) by (simp add: updatePlanet_planet [OF assms(4,5)] del: times_jsnum.simps divide_jsnum.simps plus_jsnum.simps)
  then show ?thesis using assms(8) by simp
qed

lemma sum_list_rate:
  "(\<Sum>d\<leftarrow>ds. c * d * sp * (k::real)) = c * sum_list ds * sp * k"
  by (induction ds) (simp_all add: algebra_simps)

section \<open>Rounding to doubles\<close>

text \<open>
  Within one binade the rounding is a rounding of the significand, which is how the
  values below are computed; and an upper bound of \<open>\<pi>\<close> from Machin's formula.
\<close>

lemma fl_binade:
  assumes "2 powi e \<le> \<bar>x\<bar>" and "\<bar>x\<bar> < 2 powi (e + 1)"
  shows "fl x = of_int (round_half_even (x / 2 powi (e - 52))) * 2 powi (e - 52)"
proof -
  have pos: "0 < \<bar>x\<bar>" using assms(1) by (smt (verit) zero_less_power_int)
  have "2 powr (of_int e) \<le> \<bar>x\<bar>" using assms(1) by (simp add: powr_real_of_int')
  then have 1: "of_int e \<le> log 2 \<bar>x\<bar>" using pos by (simp add: le_log_iff)
  have eq: "(2::real) powr of_int (e + 1) = 2 powi (e + 1)"
    by (rule powr_real_of_int') simp_all
  have "\<bar>x\<bar> < 2 powr (of_int (e + 1))" using assms(2) by (simp only: eq)
  then have 2: "log 2 \<bar>x\<bar> < of_int e + 1" using pos by (simp add: log_less_iff)
  have "\<lfloor>log 2 \<bar>x\<bar>\<rfloor> = e" using 1 2 by (simp add: floor_eq_iff)
  then show ?thesis using pos by (simp add: fl_def Let_def)
qed

lemma round_half_even_shift:
  assumes "1 / 2 < y - of_int \<lfloor>y\<rfloor>"
  shows "round_half_even (of_int A + y) = A + \<lfloor>y\<rfloor> + 1"
proof -
  have "\<lfloor>of_int A + y\<rfloor> = A + \<lfloor>y\<rfloor>" by linarith
  then show ?thesis using assms by (simp add: round_half_even_def Let_def)
qed

lemma velocity_double:
  "fl (fl (2 * Math_PI) / fl (365.25 * 86400)) = 7521865718631048 / 2 ^ 75"
proof -
  have 1: "fl (2 * Math_PI) = 884279719003555 / 2 ^ 47"
    using fl_binade [of 2 "2 * Math_PI"]
    by (simp add: Math_PI_def round_half_even_def Let_def power_int_minus)
  have 2: "fl (365.25 * 86400) = 31557600"
    using fl_binade [of 24 "365.25 * 86400"] by (simp add: round_half_even_def)
  have 3: "fl (884279719003555 / 2 ^ 47 / 31557600) = 7521865718631048 / 2 ^ 75"
    using fl_binade [of "- 23" "884279719003555 / 2 ^ 47 / 31557600"]
    by (simp add: round_half_even_def Let_def power_int_minus)
  show ?thesis by (simp only: 1 2 3)
qed

lemma increment_double:
  "fl (fl (fl (7521865718631048 / 2 ^ 75 * (1 / 128)) * 1) * 86400) = 4958261093824177 / 2 ^ 65"
proof -
  have 1: "fl (7521865718631048 / 2 ^ 75 * (1 / 128)) = 7521865718631048 / 2 ^ 82"
    using fl_binade [of "- 30" "7521865718631048 / 2 ^ 75 * (1 / 128)"]
    by (simp add: round_half_even_def Let_def power_int_minus)
  have 2: "fl (7521865718631048 / 2 ^ 82 * 1) = 7521865718631048 / 2 ^ 82"
    using fl_binade [of "- 30" "7521865718631048 / 2 ^ 82 * 1"]
    by (simp add: round_half_even_def Let_def power_int_minus)
  have 3: "fl (7521865718631048 / 2 ^ 82 * 86400) = 4958261093824177 / 2 ^ 65"
    using fl_binade [of "- 13" "7521865718631048 / 2 ^ 82 * 86400"]
    by (simp add: round_half_even_def Let_def power_int_minus)
  show ?thesis by (simp only: 1 2 3)
qed

lemma angle_step_binade:
  assumes "2 ^ 52 \<le> A" and "A + 147767696 < 2 ^ 53"
  shows "angle_step_double 365.25 (1 / 128) 1 (of_int A / 2 ^ 40) = of_int (A + 147767696) / 2 ^ 40"
proof -
  let ?x = "of_int A / 2 ^ 40 + 4958261093824177 / 2 ^ 65 :: real"
  have "real_of_int (2 ^ 52) \<le> of_int A" using assms(1) by (simp only: of_int_le_iff)
  moreover have "real_of_int (A + 147767696) < of_int (2 ^ 53)"
    using assms(2) by (simp only: of_int_less_iff)
  ultimately have A: "(2 ^ 52 :: real) \<le> of_int A" "of_int A + 147767696 < (2 ^ 53 :: real)"
    by simp_all
  have pos: "0 < ?x" using A(1) by (simp add: field_simps)
  have lo: "2 powi 12 \<le> \<bar>?x\<bar>" using A(1) by (simp add: field_simps)
  have hi: "\<bar>?x\<bar> < 2 powi (12 + 1)" using A by (simp add: field_simps)
  have q: "?x / 2 powi (12 - 52) = of_int A + 4958261093824177 / 2 ^ 25"
    by (simp add: power_int_minus field_simps)
  have "round_half_even (of_int A + 4958261093824177 / 2 ^ 25) = A + \<lfloor>4958261093824177 / 2 ^ 25 :: real\<rfloor> + 1"
    by (rule round_half_even_shift) simp
  then have r: "round_half_even (of_int A + 4958261093824177 / 2 ^ 25) = A + 147767696"
    by simp
  have "fl ?x = of_int (A + 147767696) / 2 ^ 40"
    using fl_binade [OF lo hi] by (simp only: q r) (simp add: power_int_minus)
  then show ?thesis
    by (simp only: angle_step_double_def Let_def velocity_double increment_double)
qed

lemma angle_run_binade:
  assumes "2 ^ 52 \<le> A" and "A + int n * 147767696 < 2 ^ 53"
  shows "angle_run_double 365.25 1 (replicate n (1 / 128)) (of_int A / 2 ^ 40) =
           of_int (A + int n * 147767696) / 2 ^ 40"
  using assms
proof (induction n arbitrary: A)
  case 0
  show ?case by simp
next
  case (Suc n)
  have step: "angle_step_double 365.25 (1 / 128) 1 (of_int A / 2 ^ 40) = of_int (A + 147767696) / 2 ^ 40"
    using Suc.prems by (intro angle_step_binade) simp_all
  have rest: "angle_run_double 365.25 1 (replicate n (1 / 128)) (of_int (A + 147767696) / 2 ^ 40) =
           of_int ((A + 147767696) + int n * 147767696) / 2 ^ 40"
    using Suc.prems by (intro Suc.IH) simp_all
  have eq: "(A + 147767696) + int n * 147767696 = A + int (Suc n) * 147767696"
    by (simp add: algebra_simps)
  show ?case
    by (simp only: replicate_Suc angle_run_double.simps step rest eq)
qed

lemma pi_upper: "pi < 3.1415926537"
proof -
  have up: "arctan x \<le> (\<Sum>i<2 * n + 1. (- 1) ^ i * (1 / real (i * 2 + 1) * x ^ (i * 2 + 1)))"
    and low: "(\<Sum>i<2 * n. (- 1) ^ i * (1 / real (i * 2 + 1) * x ^ (i * 2 + 1))) \<le> arctan x"
    if "0 < x" "x \<le> 1" for x :: real and n
  proof -
    have ax: "\<bar>x\<bar> \<le> 1" using that by simp
    have "(\<Sum>i. (- 1) ^ i * (1 / real (i * 2 + 1) * x ^ (i * 2 + 1))) \<in>
        {\<Sum>i<2 * n. (- 1) ^ i * (1 / real (i * 2 + 1) * x ^ (i * 2 + 1)) ..
         \<Sum>i<2 * n + 1. (- 1) ^ i * (1 / real (i * 2 + 1) * x ^ (i * 2 + 1))}"
      using summable_Leibniz(2) [OF zeroseq_arctan_series [OF ax] monoseq_arctan_series [OF ax]] that(1)
      by simp
    then show "arctan x \<le> (\<Sum>i<2 * n + 1. (- 1) ^ i * (1 / real (i * 2 + 1) * x ^ (i * 2 + 1)))"
      and "(\<Sum>i<2 * n. (- 1) ^ i * (1 / real (i * 2 + 1) * x ^ (i * 2 + 1))) \<le> arctan x"
      by (simp_all add: arctan_series [OF ax])
  qed
  have a5: "arctan (1 / 5) \<le> (\<Sum>i<2 * 3 + 1. (- 1) ^ i * (1 / real (i * 2 + 1) * (1 / 5) ^ (i * 2 + 1)))"
    by (rule up) simp_all
  have a239: "(\<Sum>i<2 * 1. (- 1) ^ i * (1 / real (i * 2 + 1) * (1 / 239) ^ (i * 2 + 1))) \<le> arctan (1 / 239)"
    by (rule low) simp_all
  have "pi = 16 * arctan (1 / 5) - 4 * arctan (1 / 239)" using machin by simp
  also have "\<dots> \<le> 16 * (\<Sum>i<2 * 3 + 1. (- 1) ^ i * (1 / real (i * 2 + 1) * (1 / 5) ^ (i * 2 + 1)))
      - 4 * (\<Sum>i<2 * 1. (- 1) ^ i * (1 / real (i * 2 + 1) * (1 / 239) ^ (i * 2 + 1)))"
    using a5 a239 by linarith
  also have "\<dots> < 3.1415926537"
    by (simp add: eval_nat_numeral)
  finally show ?thesis .
qed

section \<open>The rate of a planet's orbit\<close>

text \<open>
  C2 (amended). A planet (not the star, not a satellite with a parent) with the finite
  angle \<open>a\<close> and a finite orbital period \<open>P\<close> other than zero, in a running system of
  time speed \<open>sp\<close>. Every call \<^verbatim>\<open>updatePositions(deltaTime)\<close> sets its angle to
  \<open>a + 2\<pi> / (P * 86400) * deltaTime * sp * 86400\<close>, the operations in the order of the
  code. In exact arithmetic the angle grows over the calls for the elapsed times \<open>ds\<close>
  by the sum of these increments, and by \<open>2\<pi>\<close> when \<open>P\<close> is 365.25, the speed is 1
  and the elapsed times add up to 365.25. No tolerance is stated for the doubles of the
  code, which round every call.
\<close>

theorem planet_rate_law:
  assumes "\<not> isPaused s" and "timeSpeed s = Num sp" and "i < length (planets s)"
    and "\<not> isStar (userData (planets s ! i))"
    and "\<not> (isSatellite (userData (planets s ! i)) \<and> truthy (parent (userData (planets s ! i))))"
    and "currentAngle (userData (planets s ! i)) = Num a"
    and "orbitalPeriod (userData (planets s ! i)) = Num P" and "P \<noteq> 0"
  shows "currentAngle (userData (planets (updatePositions deltaTime s) ! i)) =
           Num a + Num 2 * Num pi / (Num P * Num 86400) * deltaTime * Num sp * Num 86400 \<and>
         currentAngle (userData (planets (run_frames (map Num ds) s) ! i)) =
           Num (a + (\<Sum>d\<leftarrow>ds. 2 * pi / (P * 86400) * d * sp * 86400)) \<and>
         (P = 365.25 \<and> sp = 1 \<and> sum_list ds = 365.25 \<longrightarrow>
            currentAngle (userData (planets (run_frames (map Num ds) s) ! i)) = Num (a + 2 * pi))"
proof -
  obtain ctx where
    "planets (updatePositions deltaTime s) ! i = updatePlanet deltaTime (timeSpeed s) ctx (planets s ! i)"
    using updatePositions_nth [OF assms(1,3)] by blast
  then have one: "currentAngle (userData (planets (updatePositions deltaTime s) ! i)) =
           Num a + Num 2 * Num pi / (Num P * Num 86400) * deltaTime * Num sp * Num 86400"
    using assms(2,6,7)
    by (simp add: updatePlanet_planet [OF assms(4,5)]
          del: times_jsnum.simps divide_jsnum.simps plus_jsnum.simps)
  have run: "currentAngle (userData (planets (run_frames (map Num ds) s) ! i)) =
           Num (a + (\<Sum>d\<leftarrow>ds. 2 * pi / (P * 86400) * d * sp * 86400))"
    using assms(1-7)
  proof (induction ds arbitrary: s a)
    case Nil
    then show ?case by simp
  next
    case (Cons d ds)
    let ?s = "updatePositions (Num d) s"
    let ?a = "a + 2 * pi / (P * 86400) * d * sp * 86400"
    have u: "userData (planets ?s ! i) = (userData (planets s ! i))\<lparr>currentAngle := Num ?a\<rparr>"
      using Cons.prems assms(8) by (intro planet_step) simp_all
    have "currentAngle (userData (planets (run_frames (map Num ds) ?s) ! i)) =
           Num (?a + (\<Sum>d\<leftarrow>ds. 2 * pi / (P * 86400) * d * sp * 86400))"
    proof (rule Cons.IH)
      show "\<not> isPaused ?s" using Cons.prems(1) by (simp add: updatePositions_flags)
      show "timeSpeed ?s = Num sp" using Cons.prems(2) by (simp add: updatePositions_flags)
      show "i < length (planets ?s)" using Cons.prems(3) by (simp add: updatePositions_flags)
      show "\<not> isStar (userData (planets ?s ! i))" using Cons.prems(4) by (simp add: u)
      show "\<not> (isSatellite (userData (planets ?s ! i)) \<and> truthy (parent (userData (planets ?s ! i))))"
        using Cons.prems(5) by (simp add: u)
      show "currentAngle (userData (planets ?s ! i)) = Num ?a" by (simp add: u)
      show "orbitalPeriod (userData (planets ?s ! i)) = Num P" using Cons.prems(7) by (simp add: u)
    qed
    then show ?case by (simp add: add.assoc)
  qed
  have year: "(\<Sum>d\<leftarrow>ds. 2 * pi / (P * 86400) * d * sp * 86400) = 2 * pi"
    if "P = 365.25" "sp = 1" "sum_list ds = 365.25"
  proof -
    have "(\<Sum>d\<leftarrow>ds. 2 * pi / (P * 86400) * d * sp * 86400) =
          2 * pi / (P * 86400) * sum_list ds * sp * 86400"
      by (rule sum_list_rate)
    also have "\<dots> = 2 * pi / (365.25 * 86400) * 365.25 * 1 * 86400"
      by (simp only: that)
    also have "\<dots> = 2 * pi" by simp
    finally show ?thesis .
  qed
  show ?thesis using one run year by simp
qed

theorem planet_rate_law_witness:
  "\<not> isPaused demo_system \<and> timeSpeed demo_system = Num 1 \<and>
   \<not> isStar (userData (planets demo_system ! 1)) \<and>
   \<not> isSatellite (userData (planets demo_system ! 1)) \<and>
   currentAngle (userData (planets demo_system ! 1)) = Num 0 \<and>
   orbitalPeriod (userData (planets demo_system ! 1)) = Num 365.25 \<and>
   sum_list [100, 200, 65, 0.25] = (365.25 :: real) \<and>
   currentAngle (userData (planets (updatePositions (Num 36.525) demo_system) ! 1)) = Num (pi / 5) \<and>
   currentAngle (userData (planets (run_frames (map Num [100, 200, 65, 0.25]) demo_system) ! 1))
     = Num (0 + 2 * pi)"
  using planet_rate_law [where s = demo_system and i = 1 and sp = 1 and a = 0 and P = "365.25"
      and ds = "[100, 200, 65, 0.25]" and deltaTime = "Num 36.525"]
  by (simp add: demo_system_def build_defs)

text \<open>
  C2 as stated fails: the doubles round every addition to the angle. A planet with
  a period of 365.25 days, at time speed 1, has the angle 4954 (where it is after eight
  hours at time speed 10) and runs 46752 frames of 1/128 s, 365.25 s in all. Every frame
  adds 147767696 / 2^40 to the angle, a little more than \<open>2\<pi> / 46752\<close>, and the
  angle has advanced by more than \<open>2\<pi>\<close> plus 1.6e-8.
\<close>

theorem rounded_year_counterexample:
  "sum_list (replicate 46752 (1 / 128 :: real)) = 365.25 \<and>
   fl 4954 = 4954 \<and> fl 365.25 = 365.25 \<and> fl (1 / 128) = 1 / 128 \<and>
   angle_run_double 365.25 1 (replicate 46752 (1 / 128)) 4954 = 4954 + 13493037741 / 2147483648 \<and>
   2 * pi + 16 / 10 ^ 9 < angle_run_double 365.25 1 (replicate 46752 (1 / 128)) 4954 - 4954 \<and>
   1 / 10 ^ 9 < \<bar>angle_run_double 365.25 1 (replicate 46752 (1 / 128)) 4954 - 4954 - 2 * pi\<bar>"
proof -
  have sum: "sum_list (replicate 46752 (1 / 128 :: real)) = 365.25"
    by (simp add: sum_list_replicate)
  have dbl: "fl 4954 = 4954"
    using fl_binade [of 12 4954] by (simp add: round_half_even_def power_int_minus)
  have dbl2: "fl 365.25 = 365.25"
    using fl_binade [of 8 "365.25"] by (simp add: round_half_even_def Let_def power_int_minus)
  have dbl3: "fl (1 / 128) = 1 / 128"
    using fl_binade [of "- 7" "1 / 128"] by (simp add: round_half_even_def Let_def power_int_minus)
  have "angle_run_double 365.25 1 (replicate 46752 (1 / 128)) (of_int (4954 * 2 ^ 40) / 2 ^ 40) =
      of_int (4954 * 2 ^ 40 + int 46752 * 147767696) / 2 ^ 40"
    by (rule angle_run_binade) simp_all
  then have run: "angle_run_double 365.25 1 (replicate 46752 (1 / 128)) 4954 =
      4954 + 13493037741 / 2147483648"
    by simp
  have more: "2 * pi + 16 / 10 ^ 9 < (13493037741 / 2147483648 :: real)"
    using pi_upper by simp
  have gap: "2 * pi + 16 / 10 ^ 9 < angle_run_double 365.25 1 (replicate 46752 (1 / 128)) 4954 - 4954"
    unfolding run using more by simp
  from gap have far: "1 / 10 ^ 9 < \<bar>angle_run_double 365.25 1 (replicate 46752 (1 / 128)) 4954 - 4954 - 2 * pi\<bar>"
    by simp
  show ?thesis using sum dbl dbl2 dbl3 run gap far by (intro conjI)
qed

section \<open>A satellite without its parent\<close>

lemma forEach_planets_id_set:
  "(\<lambda>p. body_id (userData p)) ` set (forEach_planets d sp [] ps) = (\<lambda>p. body_id (userData p)) ` set ps"
proof -
  have "set (map (\<lambda>p. body_id (userData p)) (forEach_planets d sp [] ps)) =
        set (map (\<lambda>p. body_id (userData p)) ps)"
    using forEach_planets_ids [of d sp "[]" ps] by simp
  then show ?thesis by (simp only: set_map)
qed

lemma getPlanetById_None:
  "(\<forall>p\<in>set ps. body_id (userData p) \<noteq> pid) \<Longrightarrow> getPlanetById ps pid = None"
  unfolding getPlanetById_def find_None_iff by blast

text \<open>
  C7 (amended). When no planet of a running system bears the parent id of a satellite,
  \<^verbatim>\<open>updatePositions\<close> raises nothing: it turns the satellite on its axis and leaves its
  angle and its position as they were.
\<close>

theorem orphan_satellite_is_skipped:
  assumes run: "\<not> isPaused s" and i: "i < length (planets s)"
    and sat: "\<not> isStar (userData (planets s ! i))" "isSatellite (userData (planets s ! i))"
    and par: "parent (userData (planets s ! i)) = Some pid" "pid \<noteq> []"
    and none: "\<forall>p\<in>set (planets s). body_id (userData p) \<noteq> pid"
  shows "planets (updatePositions d s) ! i =
           (planets s ! i)\<lparr>rotation_y := rotation_y (planets s ! i) +
              Num 2 * Num pi / (rotationPeriod (userData (planets s ! i)) * Num 3600) * d * timeSpeed s\<rparr>"
proof -
  let ?ps = "planets s"
  let ?ps' = "forEach_planets d (timeSpeed s) [] ?ps"
  let ?ctx = "take i ?ps' @ drop i ?ps"
  have upd: "planets (updatePositions d s) = ?ps'"
    using run by (simp add: updatePositions_def)
  have pi: "?ps' ! i = updatePlanet d (timeSpeed s) ?ctx (?ps ! i)"
    using forEach_planets_nth [of i ?ps d "timeSpeed s" "[]"] i by simp
  have "\<forall>q\<in>set ?ctx. body_id (userData q) \<noteq> pid"
  proof
    fix q assume "q \<in> set ?ctx"
    then have "q \<in> set ?ps' \<or> q \<in> set ?ps"
      by (auto dest: in_set_takeD in_set_dropD)
    then have "body_id (userData q) \<in> (\<lambda>p. body_id (userData p)) ` set ?ps"
      using forEach_planets_id_set [of d "timeSpeed s" ?ps] by (metis imageI)
    then obtain p where "p \<in> set ?ps" and "body_id (userData q) = body_id (userData p)"
      by (rule imageE)
    then show "body_id (userData q) \<noteq> pid" using none by simp
  qed
  then have "getPlanetById ?ctx pid = None" by (rule getPlanetById_None)
  then have lost: "getPlanetById ?ctx (the (parent (userData (?ps ! i)))) = None"
    using par(1) by simp
  have tr: "truthy (parent (userData (?ps ! i)))" using par by simp
  show ?thesis
    by (simp only: upd pi updatePlanet_orphan [OF sat tr lost])
qed

theorem orphan_satellite_is_skipped_witness:
  "\<not> isPaused orphan_system \<and>
   isSatellite (userData (planets orphan_system ! 0)) \<and>
   parent (userData (planets orphan_system ! 0)) = Some ''earth'' \<and>
   getPlanetById (planets orphan_system) ''earth'' = None \<and>
   planets (updatePositions (Num 1) orphan_system) ! 0 =
     (planets orphan_system ! 0)\<lparr>rotation_y := Num (pi / 43200)\<rparr>"
  using orphan_satellite_is_skipped [of orphan_system 0 "''earth''" "Num 1"]
  by (simp add: orphan_system_def build_defs getPlanetById_def)

text \<open>
  C7 as stated fails: for a satellite whose parent is not in the system the call returns
  an ordinary state, in which the satellite has turned on its axis and has the angle and
  the position it had before.
\<close>

theorem orphan_satellite_counterexample:
  "isSatellite (userData (planets orphan_system ! 0)) \<and>
   parent (userData (planets orphan_system ! 0)) = Some ''earth'' \<and>
   getPlanetById (planets orphan_system) ''earth'' = None \<and>
   length (planets (updatePositions (Num 1) orphan_system)) = 1 \<and>
   position (planets (updatePositions (Num 1) orphan_system) ! 0) = position (planets orphan_system ! 0) \<and>
   currentAngle (userData (planets (updatePositions (Num 1) orphan_system) ! 0)) =
     currentAngle (userData (planets orphan_system ! 0)) \<and>
   rotation_y (planets (updatePositions (Num 1) orphan_system) ! 0) = Num (pi / 43200) \<and>
   rotation_y (planets orphan_system ! 0) = Num 0"
  by (simp add: orphan_system_def build_defs tick_defs)

section \<open>A time speed of zero\<close>

lemma forEach_planets_fixed:
  "(\<forall>p\<in>set rest. updatePlanet d sp (done @ rest) p = p) \<Longrightarrow>
     forEach_planets d sp done rest = done @ rest"
proof (induction rest arbitrary: "done")
  case Nil
  show ?case by simp
next
  case (Cons p rest)
  have same: "updatePlanet d sp (done @ p # rest) p = p" using Cons.prems by simp
  have "\<forall>q\<in>set rest. updatePlanet d sp ((done @ [p]) @ rest) q = q"
    using Cons.prems by simp
  then have "forEach_planets d sp (done @ [p]) rest = (done @ [p]) @ rest"
    by (rule Cons.IH)
  then show ?case by (simp add: same)
qed

lemma zero_step:
  assumes "is_finite v" and "is_finite per" and "per \<noteq> Num 0" and "k \<noteq> 0"
  shows "v + Num 2 * Num pi / (per * Num k) * Num d * Num 0 = v"
    and "v + Num 2 * Num pi / (per * Num k) * Num d * Num 0 * Num 86400 = v"
proof -
  obtain a b where v: "v = Num a" and per: "per = Num b"
    using assms(1,2) by (auto simp add: is_finite_iff)
  have b: "b * k \<noteq> 0" using assms(3,4) per by simp
  show "v + Num 2 * Num pi / (per * Num k) * Num d * Num 0 = v"
    using b by (simp add: v per)
  show "v + Num 2 * Num pi / (per * Num k) * Num d * Num 0 * Num 86400 = v"
    using b by (simp add: v per)
qed

lemma updatePlanet_zero_speed:
  assumes fin: "finite_body p" and place: "in_place ps p"
  shows "updatePlanet (Num d) (Num 0) ps p = p"
proof -
  let ?u = "userData p"
  let ?angle = "currentAngle ?u + Num 2 * Num pi / (orbitalPeriod ?u * Num 86400) * Num d * Num 0 * Num 86400"
  have rot: "rotation_y p + Num 2 * Num pi / (rotationPeriod ?u * Num 3600) * Num d * Num 0 = rotation_y p"
    using fin by (intro zero_step(1)) (simp_all add: finite_body_def Let_def)
  show ?thesis
  proof (cases "isStar ?u")
    case True
    show ?thesis by (simp only: updatePlanet_star [OF True] rot) simp
  next
    case False
    have angle: "?angle = currentAngle ?u"
      using fin False by (intro zero_step(2)) (simp_all add: finite_body_def Let_def)
    show ?thesis
    proof (cases "isSatellite ?u \<and> truthy (parent ?u)")
      case True
      then have sat: "isSatellite ?u" and tr: "truthy (parent ?u)" by simp_all
      show ?thesis
      proof (cases "getPlanetById ps (the (parent ?u))")
        case None
        show ?thesis by (simp only: updatePlanet_orphan [OF False sat tr None] rot) simp
      next
        case (Some q)
        have "position p =
            Vector3 (vx (position q) + orbitalRadius ?u * Math_cos (currentAngle ?u))
                    (vy (position q))
                    (vz (position q) + orbitalRadius ?u * Math_sin (currentAngle ?u))"
          using place False sat tr Some by (simp add: in_place_def Let_def)
        then show ?thesis
          by (simp only: updatePlanet_moon [OF False sat tr Some] rot angle) simp
      qed
    next
      case nosat: False
      have "vx (position p) = orbitalRadius ?u * Math_cos (currentAngle ?u)"
        and "vz (position p) = orbitalRadius ?u * Math_sin (currentAngle ?u)"
        using place False nosat by (simp_all add: in_place_def Let_def)
      then have "Vector3 (orbitalRadius ?u * Math_cos (currentAngle ?u)) (vy (position p))
                   (orbitalRadius ?u * Math_sin (currentAngle ?u)) = position p"
        by (cases "position p") simp
      then show ?thesis
        by (simp only: updatePlanet_planet [OF False nosat] rot angle) simp
    qed
  qed
qed

text \<open>
  C10 (amended). In a running system with time speed 0 whose planets are finite and
  stand where their angles put them, \<^verbatim>\<open>updatePositions\<close> changes nothing, whatever
  the elapsed time.
\<close>

theorem zero_speed_keeps_placed_system:
  assumes "\<not> isPaused s" and "timeSpeed s = Num 0"
    and "\<forall>p\<in>set (planets s). finite_body p \<and> in_place (planets s) p"
  shows "updatePositions (Num d) s = s"
proof -
  have "\<forall>p\<in>set (planets s). updatePlanet (Num d) (Num 0) ([] @ planets s) p = p"
    using assms(3) by (simp add: updatePlanet_zero_speed)
  then have "forEach_planets (Num d) (Num 0) [] (planets s) = [] @ planets s"
    by (rule forEach_planets_fixed)
  then show ?thesis using assms(1,2) by (simp add: updatePositions_def)
qed

theorem zero_speed_keeps_placed_system_witness:
  "\<not> isPaused (setTimeSpeed (Num 0) (updatePositions (Num 0) demo_system)) \<and>
   timeSpeed (setTimeSpeed (Num 0) (updatePositions (Num 0) demo_system)) = Num 0 \<and>
   position (planets (setTimeSpeed (Num 0) (updatePositions (Num 0) demo_system)) ! 2)
     = Vector3 (Num 53) (Num 0) (Num 0) \<and>
   updatePositions (Num 7) (setTimeSpeed (Num 0) (updatePositions (Num 0) demo_system))
     = setTimeSpeed (Num 0) (updatePositions (Num 0) demo_system)"
  using zero_speed_keeps_placed_system
    [of "setTimeSpeed (Num 0) (updatePositions (Num 0) demo_system)" 7]
  by (simp add: demo_system_def build_defs setTimeSpeed_def tick_defs finite_body_def in_place_def)

text \<open>
  C10 as stated fails for a satellite that does not stand on its circle around the
  parent. \<^verbatim>\<open>createPlanet\<close> leaves a satellite at the origin, and a call with time
  speed 0 moves it to its parent, where a paused call leaves it. A satellite that stands
  before its parent in \<^verbatim>\<open>this.planets\<close> is, after a frame at speed 1, placed around
  the position its parent has left, and the next call with time speed 0 moves it.
\<close>

theorem zero_speed_counterexample:
  "\<not> isPaused (setTimeSpeed (Num 0) demo_system) \<and>
   timeSpeed (setTimeSpeed (Num 0) demo_system) = Num 0 \<and>
   position (planets (setTimeSpeed (Num 0) demo_system) ! 2) = Vector3 (Num 0) (Num 0) (Num 0) \<and>
   position (planets (updatePositions (Num 1) (setTimeSpeed (Num 0) demo_system)) ! 2)
     = Vector3 (Num 53) (Num 0) (Num 0) \<and>
   position (planets (updatePositions (Num 1) (setPaused True demo_system)) ! 2)
     = Vector3 (Num 0) (Num 0) (Num 0) \<and>
   \<not> isPaused (setTimeSpeed (Num 0) (updatePositions (Num 1) satellite_first)) \<and>
   position (planets (setTimeSpeed (Num 0) (updatePositions (Num 1) satellite_first)) ! 0)
     = Vector3 (Num 53) (Num 0) (Num 0) \<and>
   position (planets (updatePositions (Num 1)
       (setTimeSpeed (Num 0) (updatePositions (Num 1) satellite_first))) ! 0)
     = Vector3 (Num (- 47)) (Num 0) (Num 0)"
  by (simp add: demo_system_def satellite_first_def build_defs setTimeSpeed_def setPaused_def tick_defs)

section \<open>Loading the descriptors\<close>

text \<open>
  C6 (amended). Nothing is checked at load time. \<^verbatim>\<open>loadPlanetsData\<close> returns the
  parsed data as it is, and the empty array when the fetch fails; \<^verbatim>\<open>createPlanet\<close>
  accepts every descriptor, pushes the new planet on \<^verbatim>\<open>this.planets\<close> and stores the
  two periods and the parent id of the descriptor as they are, without looking the
  parent up.
\<close>

theorem load_accepts_every_descriptor:
  "loadPlanetsData (Inr data) = data \<and>
   loadPlanetsData (Inl error) = [] \<and>
   planets (snd (createPlanet planetData random s)) = planets s @ [fst (createPlanet planetData random s)] \<and>
   orbitalPeriod (userData (fst (createPlanet planetData random s))) = orbital_period_days planetData \<and>
   rotationPeriod (userData (fst (createPlanet planetData random s))) = rotation_period_hours planetData \<and>
   parent (userData (fst (createPlanet planetData random s))) =
     (if truthy (data_parent planetData) then data_parent planetData else None)"
  by (simp add: loadPlanetsData_def createPlanet_def Let_def)

text \<open>
  C6 as stated fails: a descriptor with an orbital period of zero days is loaded like any
  other, and the first call of \<^verbatim>\<open>updatePositions\<close> gives the planet an infinite angle
  and a position that is not a number.
\<close>

theorem zero_period_counterexample:
  "orbital_period_days zero_period_data = Num 0 \<and>
   length (planets (createAll [(zero_period_data, 0)] newPlanetSystem)) = 1 \<and>
   orbitalPeriod (userData (planets (createAll [(zero_period_data, 0)] newPlanetSystem) ! 0)) = Num 0 \<and>
   currentAngle (userData (planets (createAll [(zero_period_data, 0)] newPlanetSystem) ! 0)) = Num 0 \<and>
   currentAngle (userData (planets
     (updatePositions (Num 1) (createAll [(zero_period_data, 0)] newPlanetSystem)) ! 0)) = PInf \<and>
   position (planets (updatePositions (Num 1) (createAll [(zero_period_data, 0)] newPlanetSystem)) ! 0)
     = Vector3 NaN (Num 0) NaN"
  by (simp add: build_defs tick_defs inf_of_sign_def)

section \<open>The starting angle\<close>

text \<open>
  C9 (amended). The starting angle of a new planet is the draw of \<^verbatim>\<open>Math.random()\<close>
  that \<^verbatim>\<open>createPlanet\<close> makes, times \<open>\<pi>\<close> times 2, whatever the descriptor and the
  system: the same descriptors give the same angles only when the draws are the same.
\<close>

theorem starting_angle_is_the_draw:
  "currentAngle (userData (fst (createPlanet planetData random s))) = Num (random * pi * 2) \<and>
   currentAngle (userData (last (planets (snd (createPlanet planetData random s))))) = Num (random * pi * 2)"
  by (simp add: createPlanet_def Let_def)

text \<open>
  C9 as stated fails: \<^verbatim>\<open>createPlanet\<close> takes no seed, and two runs on the same
  descriptor and the same system whose draws differ start at different angles.
\<close>

theorem starting_angle_counterexample:
  "currentAngle (userData (fst (createPlanet earth_data 0 newPlanetSystem))) = Num 0 \<and>
   currentAngle (userData (fst (createPlanet earth_data (1 / 2) newPlanetSystem))) = Num pi \<and>
   currentAngle (userData (fst (createPlanet earth_data 0 newPlanetSystem))) \<noteq>
   currentAngle (userData (fst (createPlanet earth_data (1 / 2) newPlanetSystem)))"
  by (simp add: createPlanet_def Let_def)

section \<open>The camera animation\<close>

text \<open>
  C8. Every call of \<^verbatim>\<open>animate\<close> interpolates the camera position and the target with
  the eased value of the clamped progress \<open>t\<close>. For a finite \<open>t\<close> the eased value is
  \<open>4t\<^sup>3\<close> below one half and \<open>1 - (-2t + 2)\<^sup>3 / 2\<close> from one half on, and at one half
  both expressions are one half.
\<close>

theorem easing_is_ease_in_out_cubic:
  "controls (animate update a time c) =
     update ((controls c)
       \<lparr>camera_position := lerpVectors (startCameraPos a) (targetCameraPos a)
          (eased (Math_min ((time - startTime a) / durationMs a) (Num 1))),
        target := lerpVectors (startTarget a) (targetFocus a)
          (eased (Math_min ((time - startTime a) / durationMs a) (Num 1)))\<rparr>) \<and>
   eased (Num t) = (if t < 1 / 2 then Num (4 * t * t * t) else Num (1 - (- 2 * t + 2) ^ 3 / 2)) \<and>
   eased (Num (1 / 2)) = Num (1 / 2) \<and>
   Num 4 * Num (1 / 2) * Num (1 / 2) * Num (1 / 2) = Num (1 / 2) \<and>
   Num 1 - Math_pow3 (Num (- 2) * Num (1 / 2) + Num 2) / Num 2 = Num (1 / 2)"
proof -
  have tick: "controls (animate update a time c) =
     update ((controls c)
       \<lparr>camera_position := lerpVectors (startCameraPos a) (targetCameraPos a)
          (eased (Math_min ((time - startTime a) / durationMs a) (Num 1))),
        target := lerpVectors (startTarget a) (targetFocus a)
          (eased (Math_min ((time - startTime a) / durationMs a) (Num 1)))\<rparr>)"
    by (simp add: animate_def Let_def requestAnimationFrame_def)
  have curve: "eased (Num t) =
      (if t < 1 / 2 then Num (4 * t * t * t) else Num (1 - (- 2 * t + 2) ^ 3 / 2))"
    by (simp add: eased_def minus_jsnum_def)
  have mid: "eased (Num (1 / 2)) = Num (1 / 2)"
    by (simp add: eased_def minus_jsnum_def)
  have left: "Num 4 * Num (1 / 2) * Num (1 / 2) * Num (1 / 2) = Num (1 / 2)"
    by simp
  have right: "Num 1 - Math_pow3 (Num (- 2) * Num (1 / 2) + Num 2) / Num 2 = Num (1 / 2)"
    by (simp add: minus_jsnum_def)
  show ?thesis using tick curve mid left right by (intro conjI)
qed

lemma progress_complete:
  assumes "0 < D" and "s0 + D \<le> n"
  shows "Math_min ((Num n - Num s0) / Num D) (Num 1) = Num 1"
proof -
  have "1 \<le> (n - s0) / D" using assms by (simp add: field_simps)
  then show ?thesis using assms(1)
    by (simp add: Math_min_def minus_jsnum_def)
qed

lemma eased_one: "eased (Num 1) = Num 1"
  by (simp add: eased_def minus_jsnum_def)

lemma animate_complete:
  assumes "durationMs a = Num D" and "startTime a = Num s0" and "0 < D" and "s0 + D \<le> n"
  shows "animate update a (Num n) c =
           c\<lparr>controls := update ((controls c)
               \<lparr>camera_position := lerpVectors (startCameraPos a) (targetCameraPos a) (Num 1),
                target := lerpVectors (startTarget a) (targetFocus a) (Num 1)\<rparr>),
             isFocusing := False\<rparr>"
proof -
  have t: "Math_min ((Num n - startTime a) / durationMs a) (Num 1) = Num 1"
    using progress_complete [OF assms(3,4)] by (simp only: assms(1,2))
  show ?thesis
    unfolding animate_def Let_def t eased_one by simp
qed

text \<open>
  C3 (amended). An animation that \<^verbatim>\<open>focusOnPlanet\<close> or \<^verbatim>\<open>resetCamera\<close> starts at
  the time \<open>s0\<close> with a duration \<open>D > 0\<close> captures the camera position and the target
  of that moment as start states and, as end states, the planet's position with the
  camera offset, or the overview. Every call of its \<^verbatim>\<open>animate\<close> at a time
  \<open>n \<ge> s0 + D\<close>, in whatever state, finds the progress 1 and the eased value 1, writes
  \<^verbatim>\<open>lerpVectors(start, end, 1)\<close> to the camera position and to the target (and hands
  them to the \<^verbatim>\<open>update()\<close> of OrbitControls), clears \<^verbatim>\<open>isFocusing\<close> and requests
  no further frame.
\<close>

theorem started_animation_completes:
  assumes "\<not> isFocusing c" and "0 < D" and "s0 + D \<le> n"
  shows "let a = last (frameRequests (snd (focusOnPlanet planet (Num D) (Num s0) c)));
             b = last (frameRequests (snd (resetCamera (Num D) (Num s0) c)));
             distance = Math_max (geometry_radius planet * Num 5) (Num 10);
             angle = or_default (currentAngle (userData planet)) (Num 0)
         in startCameraPos a = camera_position (controls c) \<and>
            startTarget a = target (controls c) \<and>
            targetFocus a = position planet \<and>
            targetCameraPos a =
              vadd (position planet)
                (Vector3 (- Math_cos angle * distance) (distance * Num 0.5) (- Math_sin angle * distance)) \<and>
            startCameraPos b = camera_position (controls c) \<and>
            startTarget b = target (controls c) \<and>
            targetFocus b = Vector3 (Num 0) (Num 0) (Num 0) \<and>
            targetCameraPos b = Vector3 (Num 0) (Num 50) (Num 100) \<and>
            (\<forall>c'. animate update a (Num n) c' =
               c'\<lparr>controls := update ((controls c')
                   \<lparr>camera_position := lerpVectors (startCameraPos a) (targetCameraPos a) (Num 1),
                    target := lerpVectors (startTarget a) (targetFocus a) (Num 1)\<rparr>),
                 isFocusing := False\<rparr>) \<and>
            (\<forall>c'. animate update b (Num n) c' =
               c'\<lparr>controls := update ((controls c')
                   \<lparr>camera_position := lerpVectors (startCameraPos b) (targetCameraPos b) (Num 1),
                    target := lerpVectors (startTarget b) (targetFocus b) (Num 1)\<rparr>),
                 isFocusing := False\<rparr>)"
proof -
  define a where "a = last (frameRequests (snd (focusOnPlanet planet (Num D) (Num s0) c)))"
  define b where "b = last (frameRequests (snd (resetCamera (Num D) (Num s0) c)))"
  have a: "a = \<lparr>startCameraPos = camera_position (controls c),
        targetCameraPos = vadd (position planet)
          (Vector3 (- Math_cos (or_default (currentAngle (userData planet)) (Num 0)) *
                      Math_max (geometry_radius planet * Num 5) (Num 10))
                   (Math_max (geometry_radius planet * Num 5) (Num 10) * Num 0.5)
                   (- Math_sin (or_default (currentAngle (userData planet)) (Num 0)) *
                      Math_max (geometry_radius planet * Num 5) (Num 10))),
        startTarget = target (controls c), targetFocus = position planet,
        startTime = Num s0, durationMs = Num D\<rparr>"
    using assms(1) by (simp add: a_def focusOnPlanet_def requestAnimationFrame_def Let_def)
  have b: "b = \<lparr>startCameraPos = camera_position (controls c),
        targetCameraPos = Vector3 (Num 0) (Num 50) (Num 100),
        startTarget = target (controls c), targetFocus = Vector3 (Num 0) (Num 0) (Num 0),
        startTime = Num s0, durationMs = Num D\<rparr>"
    using assms(1) by (simp add: b_def resetCamera_def requestAnimationFrame_def Let_def)
  have da: "durationMs a = Num D" "startTime a = Num s0" by (simp_all add: a)
  have db: "durationMs b = Num D" "startTime b = Num s0" by (simp_all add: b)
  note ta = animate_complete [OF da assms(2,3), of update]
  note tb = animate_complete [OF db assms(2,3), of update]
  have fields: "startCameraPos a = camera_position (controls c)" "startTarget a = target (controls c)"
    "targetFocus a = position planet"
    "targetCameraPos a = vadd (position planet)
          (Vector3 (- Math_cos (or_default (currentAngle (userData planet)) (Num 0)) *
                      Math_max (geometry_radius planet * Num 5) (Num 10))
                   (Math_max (geometry_radius planet * Num 5) (Num 10) * Num 0.5)
                   (- Math_sin (or_default (currentAngle (userData planet)) (Num 0)) *
                      Math_max (geometry_radius planet * Num 5) (Num 10)))"
    "startCameraPos b = camera_position (controls c)" "startTarget b = target (controls c)"
    "targetFocus b = Vector3 (Num 0) (Num 0) (Num 0)"
    "targetCameraPos b = Vector3 (Num 0) (Num 50) (Num 100)"
    by (simp_all add: a b)
  show ?thesis
    unfolding Let_def a_def [symmetric] b_def [symmetric]
    using fields ta tb by (intro conjI allI)
qed

lemmas controls_defs = focus_started_def negative_reset_def near_earth_controls_def demo_controls_def
  focusOnPlanet_def resetCamera_def requestAnimationFrame_def vadd_def Math_max_def
  demo_system_def

lemmas frame_defs = runFrame_def animate_def eased_def Math_min_def lerpVectors_def minus_jsnum_def

theorem started_animation_completes_witness:
  "\<not> isFocusing demo_controls \<and>
   last (frameRequests (snd (focusOnPlanet (planets demo_system ! 1) (Num 2000) (Num 1000) demo_controls))) =
     \<lparr>startCameraPos = Vector3 (Num 0) (Num 50) (Num 100),
      targetCameraPos = Vector3 (Num 40) (Num 5) (Num 0),
      startTarget = Vector3 (Num 0) (Num 0) (Num 0),
      targetFocus = Vector3 (Num 50) (Num 0) (Num 0),
      startTime = Num 1000, durationMs = Num 2000\<rparr> \<and>
   animate id
     (last (frameRequests (snd (focusOnPlanet (planets demo_system ! 1) (Num 2000) (Num 1000) demo_controls))))
     (Num 3000) (demo_controls\<lparr>isFocusing := True\<rparr>) =
     demo_controls\<lparr>controls := (controls demo_controls)
         \<lparr>camera_position :=
            lerpVectors (Vector3 (Num 0) (Num 50) (Num 100)) (Vector3 (Num 40) (Num 5) (Num 0)) (Num 1),
          target :=
            lerpVectors (Vector3 (Num 0) (Num 0) (Num 0)) (Vector3 (Num 50) (Num 0) (Num 0)) (Num 1)\<rparr>,
       isFocusing := False\<rparr> \<and>
   animate id
     (last (frameRequests (snd (resetCamera (Num 2000) (Num 1000) demo_controls))))
     (Num 3500) (near_earth_controls\<lparr>isFocusing := True\<rparr>) =
     near_earth_controls\<lparr>controls := (controls near_earth_controls)
         \<lparr>camera_position :=
            lerpVectors (Vector3 (Num 0) (Num 50) (Num 100)) (Vector3 (Num 0) (Num 50) (Num 100)) (Num 1),
          target :=
            lerpVectors (Vector3 (Num 0) (Num 0) (Num 0)) (Vector3 (Num 0) (Num 0) (Num 0)) (Num 1)\<rparr>,
       isFocusing := False\<rparr>"
proof -
  let ?a = "last (frameRequests (snd (focusOnPlanet (planets demo_system ! 1) (Num 2000) (Num 1000) demo_controls)))"
  let ?b = "last (frameRequests (snd (resetCamera (Num 2000) (Num 1000) demo_controls)))"
  let ?c1 = "demo_controls\<lparr>isFocusing := True\<rparr>"
  let ?c2 = "near_earth_controls\<lparr>isFocusing := True\<rparr>"
  have idle: "\<not> isFocusing demo_controls" by (simp add: demo_controls_def)
  have a: "?a = \<lparr>startCameraPos = Vector3 (Num 0) (Num 50) (Num 100),
      targetCameraPos = Vector3 (Num 40) (Num 5) (Num 0),
      startTarget = Vector3 (Num 0) (Num 0) (Num 0),
      targetFocus = Vector3 (Num 50) (Num 0) (Num 0),
      startTime = Num 1000, durationMs = Num 2000\<rparr>"
    by (simp add: controls_defs build_defs)
  have b: "?b = \<lparr>startCameraPos = Vector3 (Num 0) (Num 50) (Num 100),
      targetCameraPos = Vector3 (Num 0) (Num 50) (Num 100),
      startTarget = Vector3 (Num 0) (Num 0) (Num 0),
      targetFocus = Vector3 (Num 0) (Num 0) (Num 0),
      startTime = Num 1000, durationMs = Num 2000\<rparr>"
    by (simp add: controls_defs build_defs)
  have early: "(0::real) < 2000" "(1000::real) + 2000 \<le> 3000" by simp_all
  have late: "(0::real) < 2000" "(1000::real) + 2000 \<le> 3500" by simp_all
  have "animate id ?a (Num 3000) ?c1 =
      ?c1\<lparr>controls := id ((controls ?c1)
          \<lparr>camera_position := lerpVectors (startCameraPos ?a) (targetCameraPos ?a) (Num 1),
           target := lerpVectors (startTarget ?a) (targetFocus ?a) (Num 1)\<rparr>),
        isFocusing := False\<rparr>"
    using started_animation_completes [OF idle early, where planet = "planets demo_system ! 1" and update = id]
    unfolding Let_def by blast
  then have 1: "animate id ?a (Num 3000) ?c1 =
     demo_controls\<lparr>controls := (controls demo_controls)
         \<lparr>camera_position :=
            lerpVectors (Vector3 (Num 0) (Num 50) (Num 100)) (Vector3 (Num 40) (Num 5) (Num 0)) (Num 1),
          target :=
            lerpVectors (Vector3 (Num 0) (Num 0) (Num 0)) (Vector3 (Num 50) (Num 0) (Num 0)) (Num 1)\<rparr>,
       isFocusing := False\<rparr>"
    by (simp only: a) simp
  have "animate id ?b (Num 3500) ?c2 =
      ?c2\<lparr>controls := id ((controls ?c2)
          \<lparr>camera_position := lerpVectors (startCameraPos ?b) (targetCameraPos ?b) (Num 1),
           target := lerpVectors (startTarget ?b) (targetFocus ?b) (Num 1)\<rparr>),
        isFocusing := False\<rparr>"
    using started_animation_completes [OF idle late, where planet = "planets demo_system ! 1" and update = id]
    unfolding Let_def by blast
  then have 2: "animate id ?b (Num 3500) ?c2 =
     near_earth_controls\<lparr>controls := (controls near_earth_controls)
         \<lparr>camera_position :=
            lerpVectors (Vector3 (Num 0) (Num 50) (Num 100)) (Vector3 (Num 0) (Num 50) (Num 100)) (Num 1),
          target :=
            lerpVectors (Vector3 (Num 0) (Num 0) (Num 0)) (Vector3 (Num 0) (Num 0) (Num 0)) (Num 1)\<rparr>,
       isFocusing := False\<rparr>"
    by (simp only: b) simp
  show ?thesis using idle a 1 2 by (intro conjI)
qed

lemma lerp_double_miss:
  "lerp_double 100 (4737060517029909 / 2 ^ 47) 1 = 4737060517029908 / 2 ^ 47"
proof -
  have 1: "fl (4737060517029909 / 2 ^ 47 - 100) = - (4668344159251446 / 2 ^ 46)"
    using fl_binade [of 6 "4737060517029909 / 2 ^ 47 - 100"]
    by (simp add: round_half_even_def Let_def power_int_minus)
  have 2: "fl (- (4668344159251446 / 2 ^ 46) * 1) = - (4668344159251446 / 2 ^ 46)"
    using fl_binade [of 6 "- (4668344159251446 / 2 ^ 46) * 1"]
    by (simp add: round_half_even_def Let_def power_int_minus)
  have 3: "fl (100 + - (4668344159251446 / 2 ^ 46)) = 4737060517029908 / 2 ^ 47"
    using fl_binade [of 5 "100 + - (4668344159251446 / 2 ^ 46)"]
    by (simp add: round_half_even_def Let_def power_int_minus)
  show ?thesis by (simp only: lerp_double_def 1 2 3)
qed

text \<open>
  C3 as stated fails in two ways. The tick that completes writes
  \<^verbatim>\<open>start + (end - start) * 1\<close>, and the doubles round the difference and the sum:
  a component that starts at 100 and has the captured end state 33.65883939231586
  (both doubles) ends one unit in the last place below it. And a negative duration is
  not an instantaneous completion: after \<^verbatim>\<open>resetCamera(-1000)\<close> at time 0 the frames
  at the times 16 and 5000, both later than start time plus duration, find a negative
  progress, keep \<^verbatim>\<open>isFocusing\<close> and request the next frame.
\<close>

theorem animation_end_counterexample:
  "fl 100 = 100 \<and>
   fl (4737060517029909 / 2 ^ 47) = 4737060517029909 / 2 ^ 47 \<and>
   lerp_double 100 (4737060517029909 / 2 ^ 47) 1 = 4737060517029908 / 2 ^ 47 \<and>
   lerp_double 100 (4737060517029909 / 2 ^ 47) 1 \<noteq> 4737060517029909 / 2 ^ 47 \<and>
   durationMs (hd (frameRequests negative_reset)) = Num (- 1000) \<and>
   startTime (hd (frameRequests negative_reset)) = Num 0 \<and>
   targetCameraPos (hd (frameRequests negative_reset)) = Vector3 (Num 0) (Num 50) (Num 100) \<and>
   isFocusing (runFrame id (Num 16) negative_reset) \<and>
   frameRequests (runFrame id (Num 16) negative_reset) = frameRequests negative_reset \<and>
   camera_position (controls (runFrame id (Num 16) negative_reset)) =
     Vector3 (Num (15625256 / 390625)) (Num (1952837 / 390625)) (Num (- (128 / 78125))) \<and>
   isFocusing (runFrame id (Num 5000) (runFrame id (Num 16) negative_reset)) \<and>
   camera_position (controls (runFrame id (Num 5000) (runFrame id (Num 16) negative_reset))) =
     Vector3 (Num 20040) (Num (- 22495)) (Num (- 50000))"
proof -
  have d1: "fl 100 = 100"
    using fl_binade [of 6 100] by (simp add: round_half_even_def power_int_minus)
  have d2: "fl (4737060517029909 / 2 ^ 47) = 4737060517029909 / 2 ^ 47"
    using fl_binade [of 5 "4737060517029909 / 2 ^ 47"]
    by (simp add: round_half_even_def Let_def power_int_minus)
  have miss: "lerp_double 100 (4737060517029909 / 2 ^ 47) 1 \<noteq> 4737060517029909 / 2 ^ 47"
    by (simp only: lerp_double_miss) simp
  have neg: "durationMs (hd (frameRequests negative_reset)) = Num (- 1000) \<and>
   startTime (hd (frameRequests negative_reset)) = Num 0 \<and>
   targetCameraPos (hd (frameRequests negative_reset)) = Vector3 (Num 0) (Num 50) (Num 100) \<and>
   isFocusing (runFrame id (Num 16) negative_reset) \<and>
   frameRequests (runFrame id (Num 16) negative_reset) = frameRequests negative_reset \<and>
   camera_position (controls (runFrame id (Num 16) negative_reset)) =
     Vector3 (Num (15625256 / 390625)) (Num (1952837 / 390625)) (Num (- (128 / 78125))) \<and>
   isFocusing (runFrame id (Num 5000) (runFrame id (Num 16) negative_reset)) \<and>
   camera_position (controls (runFrame id (Num 5000) (runFrame id (Num 16) negative_reset))) =
     Vector3 (Num 20040) (Num (- 22495)) (Num (- 50000))"
    by (simp add: controls_defs frame_defs)
  show ?thesis using d1 d2 lerp_double_miss miss neg by (intro conjI) simp_all
qed

section \<open>Requests during an animation\<close>

text \<open>
  C4 (amended). While \<^verbatim>\<open>isFocusing\<close> is set, \<^verbatim>\<open>focusOnPlanet\<close> and
  \<^verbatim>\<open>resetCamera\<close> change nothing (the requested closure with its end states stays as
  it is, and no other is requested) and return \<^verbatim>\<open>undefined\<close>.
\<close>

theorem busy_controls_ignore_requests:
  "isFocusing c \<Longrightarrow>
     focusOnPlanet planet duration now c = (JSUndefined, c) \<and>
     resetCamera duration now c = (JSUndefined, c)"
  by (simp add: focusOnPlanet_def resetCamera_def)

theorem busy_controls_ignore_requests_witness:
  "isFocusing focus_started \<and>
   focusOnPlanet (planets demo_system ! 2) (Num 500) (Num 1100) focus_started
     = (JSUndefined, focus_started) \<and>
   resetCamera (Num 500) (Num 1100) focus_started = (JSUndefined, focus_started)"
  using busy_controls_ignore_requests
    [of focus_started "planets demo_system ! 2" "Num 500" "Num 1100"]
  by (simp add: focus_started_def focusOnPlanet_def demo_controls_def requestAnimationFrame_def Let_def)

text \<open>
  C4 as stated fails in its last part: the call that is rejected and the call that starts
  an animation return the same value, \<^verbatim>\<open>undefined\<close>.
\<close>

theorem no_rejection_flag_counterexample:
  "isFocusing focus_started \<and> \<not> isFocusing demo_controls \<and>
   fst (focusOnPlanet (planets demo_system ! 1) (Num 2000) (Num 1000) focus_started) = JSUndefined \<and>
   fst (focusOnPlanet (planets demo_system ! 1) (Num 2000) (Num 1000) demo_controls) = JSUndefined \<and>
   snd (focusOnPlanet (planets demo_system ! 1) (Num 2000) (Num 1000) demo_controls) \<noteq> demo_controls \<and>
   fst (resetCamera (Num 2000) (Num 1000) focus_started) = JSUndefined \<and>
   fst (resetCamera (Num 2000) (Num 1000) demo_controls) = JSUndefined \<and>
   snd (resetCamera (Num 2000) (Num 1000) demo_controls) \<noteq> demo_controls"
  by (simp add: focus_started_def focusOnPlanet_def resetCamera_def demo_controls_def
        requestAnimationFrame_def Let_def)

end
